theory Spec2Isabelle
  imports Complex_Main "HOL-Library.Sublist"
begin

section \<open>Shared: error codes and thrown values\<close>

text \<open>The table \<open>ERROR_CODES\<close> of \<open>shared/error-codes.ts\<close>.\<close>

definition METHOD_NOT_FOUND :: int where "METHOD_NOT_FOUND = - 32601"
definition INVALID_REQUEST :: int where "INVALID_REQUEST = - 32600"
definition INVALID_PARAMS :: int where "INVALID_PARAMS = - 32602"
definition INTERNAL_ERROR :: int where "INTERNAL_ERROR = - 32603"
definition PAYMENT_REQUIRED :: int where "PAYMENT_REQUIRED = 40200"
definition PAYMENT_INVALID :: int where "PAYMENT_INVALID = 40201"
definition INSUFFICIENT_PAYMENT :: int where "INSUFFICIENT_PAYMENT = 40202"
definition REPLAY_DETECTED :: int where "REPLAY_DETECTED = 40203"
definition PAYMENT_EXECUTION_FAILED :: int where "PAYMENT_EXECUTION_FAILED = 40204"
definition GUARDRAIL_VIOLATION :: int where "GUARDRAIL_VIOLATION = 40210"
definition WHITELIST_VIOLATION :: int where "WHITELIST_VIOLATION = 40211"

text \<open>
  Anything a JavaScript \<open>throw\<close> can raise in this code base, told apart the way the
  source tells it apart: \<open>instanceof PaymentError\<close>, \<open>instanceof Error\<close>, and the
  optional members \<open>code\<close> and \<open>message\<close> that \<open>isMethodNotFoundError\<close> reads.
  \<open>PaymentError\<close> is the class of \<open>shared/errors/PaymentError.ts\<close> (code, message,
  details); \<open>JsError\<close> is any other \<open>Error\<close> (the session layer's errors carry a
  numeric code); \<open>ThrownObject\<close> is a plain object and \<open>ThrownString\<close> a string.
  Money amounts are JavaScript numbers; finite ones are compared as the rationals they denote.
\<close>

datatype details =
    NoDetails
  | PaymentRequiredDetails (d_amount: string) (d_asset: string)
      (d_paymentAddress: string) (d_network: string)
  | GuardrailDetails (d_usd: rat) (d_maxPaymentPerCall: rat)
  | WhitelistDetails (d_payTo: string) (d_whitelistedServers: "string list")
  | CauseDetails thrown
and thrown =
    PaymentError int string details
  | JsError "int option" string
  | ThrownObject "int option" "string option"
  | ThrownString string

fun isPaymentError :: "thrown \<Rightarrow> bool" where
  "isPaymentError (PaymentError c m d) = True"
| "isPaymentError _ = False"

fun isError :: "thrown \<Rightarrow> bool" where
  "isError (PaymentError c m d) = True"
| "isError (JsError c m) = True"
| "isError _ = False"

fun code_of :: "thrown \<Rightarrow> int option" where
  "code_of (PaymentError c m d) = Some c"
| "code_of (JsError c m) = c"
| "code_of (ThrownObject c m) = c"
| "code_of (ThrownString s) = None"

fun message_of :: "thrown \<Rightarrow> string option" where
  "message_of (PaymentError c m d) = Some m"
| "message_of (JsError c m) = Some m"
| "message_of (ThrownObject c m) = m"
| "message_of (ThrownString s) = None"

fun details_of :: "thrown \<Rightarrow> details" where
  "details_of (PaymentError c m d) = d"
| "details_of _ = NoDetails"

text \<open>\<open>error instanceof Error ? error.message : String(error)\<close>.\<close>

fun errorText :: "thrown \<Rightarrow> string" where
  "errorText (PaymentError c m d) = m"
| "errorText (JsError c m) = m"
| "errorText (ThrownObject c m) = ''[object Object]''"
| "errorText (ThrownString s) = s"

text \<open>\<open>String.prototype.includes\<close>: the argument occurs as a contiguous run.\<close>

fun js_includes :: "string \<Rightarrow> string \<Rightarrow> bool" where
  "js_includes [] sub = (sub = [])"
| "js_includes (c # cs) sub = (prefix sub (c # cs) \<or> js_includes cs sub)"

section \<open>Shared: wire messages\<close>

record PaymentRequirements =
  scheme :: string
  network :: string
  maxAmountRequired :: string
  resource :: string
  description :: string
  mimeType :: string
  payTo :: string
  maxTimeoutSeconds :: nat
  asset :: string
  outputSchema :: "string option"
  extra :: "string option"

text \<open>\<open>ExtendedPaymentRequirementsSchema = PaymentRequirementsSchema.extend({...})\<close>.\<close>

record ExtendedPaymentRequirements = PaymentRequirements +
  x402Version :: int
  requestId :: "string option"

record PaymentRequiredRequest =
  rq_id :: string
  rq_method :: string
  rq_params :: ExtendedPaymentRequirements

record ExactPayload =
  signature :: "string option"
  authorization :: string

record PaymentPayload =
  pp_x402Version :: int
  pp_scheme :: string
  pp_network :: string
  pp_payload :: "ExactPayload option"

record PaymentRequiredResponse =
  rs_id :: string
  rs_payment :: "PaymentPayload option"

record ValidationResult =
  isValid :: bool
  invalidReason :: "string option"

record PaymentResult =
  success :: bool
  errorReason :: "string option"
  transaction :: "string option"
  pres_network :: "string option"
  payer :: "string option"

record PaymentResultParams =
  n_success :: bool
  n_transaction :: "string option"
  n_network :: "string option"
  n_requestId :: string
  n_payer :: "string option"
  n_errorReason :: "string option"

record PaymentResultNotification =
  n_method :: string
  n_params :: PaymentResultParams

section \<open>Server: the invocation context and its collaborators\<close>

text \<open>
  The per-request context (\<open>extra\<close> in the source): the request id plus the two fields
  the orchestrator attaches. \<open>sendRequest\<close> and \<open>sendNotification\<close>, bound to the
  session, and the facilitator are the collaborators of one invocation; each either returns
  or throws. Every call the orchestrator and the wrapper make to them is appended to a trace.
\<close>

record Extra =
  ex_requestId :: string
  paymentProof :: "PaymentPayload option"
  paymentRequirements :: "PaymentRequirements option"

record Session =
  sendRequest :: "PaymentRequiredRequest \<Rightarrow> thrown + PaymentRequiredResponse"
  sendNotification :: "PaymentResultNotification \<Rightarrow> thrown option"
  facilitator_validatePayment ::
    "PaymentPayload \<Rightarrow> PaymentRequirements \<Rightarrow> thrown + ValidationResult"
  facilitator_executePayment ::
    "PaymentPayload \<Rightarrow> PaymentRequirements \<Rightarrow> thrown + PaymentResult"

record PaymentOrchestratorOptions =
  opt_payTo :: string
  opt_network :: string

datatype event =
    SentRequest PaymentRequiredRequest
  | FacilitatorValidate PaymentPayload PaymentRequirements
  | HandlerRan Extra
  | SettleCalled
  | FacilitatorExecute PaymentPayload PaymentRequirements
  | SentNotification PaymentResultNotification

record state =
  ctx :: Extra
  trace :: "event list"

definition emit :: "event \<Rightarrow> state \<Rightarrow> state" where
  "emit e s = s\<lparr>trace := trace s @ [e]\<rparr>"

text \<open>The events of the verify phase and the events of settlement.\<close>

fun isValidationEvent :: "event \<Rightarrow> bool" where
  "isValidationEvent (SentRequest r) = True"
| "isValidationEvent (FacilitatorValidate p q) = True"
| "isValidationEvent _ = False"

fun isSettlementEvent :: "event \<Rightarrow> bool" where
  "isSettlementEvent SettleCalled = True"
| "isSettlementEvent (FacilitatorExecute p q) = True"
| "isSettlementEvent (SentNotification n) = True"
| "isSettlementEvent _ = False"



section \<open>Server: the payment orchestrator\<close>

text \<open>\<open>PaymentOrchestrator.isMethodNotFoundError\<close>.\<close>

definition isMethodNotFoundError :: "thrown \<Rightarrow> bool" where
  "isMethodNotFoundError err =
     (code_of err = Some (- 32601) \<or>
      (case message_of err of None \<Rightarrow> False | Some m \<Rightarrow> js_includes m ''Method not found'') \<or>
      (case message_of err of None \<Rightarrow> False | Some m \<Rightarrow> js_includes m ''method not found''))"

text \<open>
  \<open>PaymentOrchestrator.sendPaymentRequiredRequest\<close>: builds the challenge from the
  requirements and \<open>extra.requestId\<close>, sends it, and maps a thrown transport error.
  \<open>error.code ? error.code : PAYMENT_INVALID\<close> takes the error's own code when it is
  present and non-zero.
\<close>

definition buildPaymentRequest :: "PaymentRequirements \<Rightarrow> string \<Rightarrow> PaymentRequiredRequest" where
  "buildPaymentRequest reqs rid =
     \<lparr> rq_id = rid,
       rq_method = ''x402/payment_required'',
       rq_params = \<lparr> scheme = scheme reqs, network = network reqs,
         maxAmountRequired = maxAmountRequired reqs, resource = resource reqs,
         description = description reqs, mimeType = mimeType reqs, payTo = payTo reqs,
         maxTimeoutSeconds = maxTimeoutSeconds reqs, asset = asset reqs,
         outputSchema = outputSchema reqs, extra = extra reqs,
         x402Version = 1, requestId = Some rid \<rparr> \<rparr>"

definition transportErrorCode :: "thrown \<Rightarrow> int" where
  "transportErrorCode err =
     (case code_of err of
        None \<Rightarrow> PAYMENT_INVALID
      | Some c \<Rightarrow> if c \<noteq> 0 then c else PAYMENT_INVALID)"

definition sendPaymentRequiredRequest ::
  "Session \<Rightarrow> PaymentOrchestratorOptions \<Rightarrow> PaymentRequirements \<Rightarrow> state
     \<Rightarrow> (thrown + PaymentRequiredResponse) \<times> state" where
  "sendPaymentRequiredRequest sess opts reqs s =
     (let paymentRequest = buildPaymentRequest reqs (ex_requestId (ctx s));
          s1 = emit (SentRequest paymentRequest) s
      in case sendRequest sess paymentRequest of
           Inr response \<Rightarrow> (Inr response, s1)
         | Inl err \<Rightarrow>
             if isMethodNotFoundError err then
               (Inl (PaymentError PAYMENT_REQUIRED
                  (''Payment required: '' @
                    (if description reqs = [] then ''Payment is required for this operation''
                     else description reqs))
                  (PaymentRequiredDetails (maxAmountRequired reqs) (asset reqs)
                     (opt_payTo opts) (opt_network opts))), s1)
             else
               (Inl (PaymentError (transportErrorCode err)
                  ''Failed to send payment request'' (CauseDetails err)), s1))"

text \<open>
  \<open>PaymentOrchestrator.validatePaymentProof\<close>: the structural checks in source order,
  then the facilitator; on success the proof and the requirements are stored in the context.
\<close>

definition hasSignature :: "PaymentPayload \<Rightarrow> bool" where
  "hasSignature payment =
     (case pp_payload payment of
        None \<Rightarrow> False
      | Some pl \<Rightarrow> (case signature pl of None \<Rightarrow> False | Some sg \<Rightarrow> sg \<noteq> []))"

definition validatePaymentProof ::
  "Session \<Rightarrow> PaymentRequiredResponse \<Rightarrow> PaymentRequirements \<Rightarrow> state
     \<Rightarrow> (thrown + PaymentPayload) \<times> state" where
  "validatePaymentProof sess response reqs s =
     (case rs_payment response of
        None \<Rightarrow>
          (Inl (PaymentError PAYMENT_INVALID ''Invalid payment proof: missing signature'' NoDetails), s)
      | Some payment \<Rightarrow>
          if \<not> hasSignature payment then
            (Inl (PaymentError PAYMENT_INVALID ''Invalid payment proof: missing signature'' NoDetails), s)
          else if pp_x402Version payment \<noteq> 1 then
            (Inl (PaymentError INVALID_REQUEST ''Invalid x402 version'' NoDetails), s)
          else if pp_scheme payment \<noteq> ''exact'' then
            (Inl (PaymentError PAYMENT_INVALID ''Invalid payment scheme'' NoDetails), s)
          else if pp_network payment \<noteq> network reqs then
            (Inl (PaymentError PAYMENT_INVALID ''Invalid payment proof: network mismatch'' NoDetails), s)
          else
            (let s1 = emit (FacilitatorValidate payment reqs) s
             in case facilitator_validatePayment sess payment reqs of
                  Inl err \<Rightarrow> (Inl err, s1)
                | Inr res \<Rightarrow>
                    if \<not> isValid res then
                      (Inl (PaymentError PAYMENT_INVALID
                         (case invalidReason res of
                            None \<Rightarrow> ''Payment proof validation failed''
                          | Some r \<Rightarrow> if r = [] then ''Payment proof validation failed'' else r)
                         NoDetails), s1)
                    else
                      (Inr payment,
                       s1\<lparr>ctx := (ctx s1)\<lparr>paymentProof := Some payment,
                                            paymentRequirements := Some reqs\<rparr>\<rparr>)))"

text \<open>
  \<open>PaymentOrchestrator.validatePayment\<close>: a \<open>PaymentError\<close> is re-thrown as it is, any
  other thrown value is wrapped as \<open>PAYMENT_INVALID\<close>.
\<close>

definition validatePayment ::
  "Session \<Rightarrow> PaymentOrchestratorOptions \<Rightarrow> string \<Rightarrow> PaymentRequirements \<Rightarrow> state
     \<Rightarrow> (thrown + unit) \<times> state" where
  "validatePayment sess opts handlerName reqs s =
     (case sendPaymentRequiredRequest sess opts reqs s of
        (Inl err, s1) \<Rightarrow>
          (if isPaymentError err then Inl err
           else Inl (PaymentError PAYMENT_INVALID
                  (''Payment validation failed: '' @ errorText err) NoDetails), s1)
      | (Inr response, s1) \<Rightarrow>
          (case validatePaymentProof sess response reqs s1 of
             (Inl err, s2) \<Rightarrow>
               (if isPaymentError err then Inl err
                else Inl (PaymentError PAYMENT_INVALID
                       (''Payment validation failed: '' @ errorText err) NoDetails), s2)
           | (Inr payment, s2) \<Rightarrow> (Inr (), s2)))"

text \<open>
  \<open>PaymentOrchestrator.settlePayment\<close>. \<open>settlePayment_try\<close> is the body of the
  \<open>try\<close> block; \<open>settlePayment\<close> adds the \<open>catch\<close> block, which sends the failure
  notification and re-throws (a throw of that second \<open>sendNotification\<close> leaves the
  \<open>catch\<close> block as it is). An absent \<open>errorReason\<close> prints as \<open>undefined\<close>.
\<close>

definition successNotification :: "PaymentResult \<Rightarrow> string \<Rightarrow> PaymentResultNotification" where
  "successNotification paymentResult rid =
     \<lparr> n_method = ''x402/payment_result'',
       n_params = \<lparr> n_success = True, n_transaction = transaction paymentResult,
         n_network = pres_network paymentResult, n_requestId = rid,
         n_payer = payer paymentResult, n_errorReason = None \<rparr> \<rparr>"

definition failureNotification ::
  "PaymentOrchestratorOptions \<Rightarrow> thrown \<Rightarrow> string \<Rightarrow> PaymentResultNotification" where
  "failureNotification opts err rid =
     \<lparr> n_method = ''x402/payment_result'',
       n_params = \<lparr> n_success = False, n_transaction = None,
         n_network = Some (opt_network opts), n_requestId = rid,
         n_payer = None, n_errorReason = Some (errorText err) \<rparr> \<rparr>"

definition settlePayment_try :: "Session \<Rightarrow> state \<Rightarrow> (thrown + unit) \<times> state" where
  "settlePayment_try sess s =
     (case paymentProof (ctx s) of
        None \<Rightarrow>
          (Inl (PaymentError PAYMENT_INVALID
             ''Payment proof or requirements not found in context'' NoDetails), s)
      | Some prf \<Rightarrow>
          (case paymentRequirements (ctx s) of
             None \<Rightarrow>
               (Inl (PaymentError PAYMENT_INVALID
                  ''Payment proof or requirements not found in context'' NoDetails), s)
           | Some reqs \<Rightarrow>
               (let s1 = emit (FacilitatorExecute prf reqs) s
                in case facilitator_executePayment sess prf reqs of
                     Inl err \<Rightarrow> (Inl err, s1)
                   | Inr paymentResult \<Rightarrow>
                       if \<not> success paymentResult then
                         (Inl (PaymentError PAYMENT_EXECUTION_FAILED
                            (''Payment settlement failed: '' @
                               (case errorReason paymentResult of
                                  None \<Rightarrow> ''undefined'' | Some r \<Rightarrow> r))
                            NoDetails), s1)
                       else
                         (let n = successNotification paymentResult (ex_requestId (ctx s1));
                              s2 = emit (SentNotification n) s1
                          in case sendNotification sess n of
                               Some err \<Rightarrow> (Inl err, s2)
                             | None \<Rightarrow> (Inr (), s2)))))"

definition settlePayment ::
  "Session \<Rightarrow> PaymentOrchestratorOptions \<Rightarrow> state \<Rightarrow> (thrown + unit) \<times> state" where
  "settlePayment sess opts s =
     (case settlePayment_try sess (emit SettleCalled s) of
        (Inr u, s1) \<Rightarrow> (Inr (), s1)
      | (Inl err, s1) \<Rightarrow>
          (let n = failureNotification opts err (ex_requestId (ctx s1));
               s2 = emit (SentNotification n) s1
           in case sendNotification sess n of
                Some err2 \<Rightarrow> (Inl err2, s2)
              | None \<Rightarrow>
                  (if isPaymentError err then Inl err
                   else Inl (PaymentError PAYMENT_EXECUTION_FAILED
                          (''Payment settlement failed: '' @ errorText err) NoDetails), s2)))"

section \<open>Server: payment requirement assembly\<close>

text \<open>
  \<open>PaymentOptions\<close> of the decorators, the wrapper's \<open>x402Config\<close>, and the library
  functions the server calls but does not define: the pricer
  \<open>processPriceToAtomicAmount\<close> of the x402 package (an error text or the atomic
  amount with its asset), \<open>new URL(path, base).toString()\<close> (which may throw), and the
  printing of a number inside a template string.
\<close>

record PaymentOptions =
  amount :: rat
  po_description :: "string option"

record X402Config =
  cfg_payTo :: string
  cfg_network :: string
  cfg_baseUrl :: "string option"

record PricedAsset =
  pa_maxAmountRequired :: string
  pa_address :: string
  pa_decimals :: nat
  pa_eip712 :: "string option"

record Externals =
  processPriceToAtomicAmount :: "rat \<Rightarrow> string \<Rightarrow> string + PricedAsset"
  URL_toString :: "string \<Rightarrow> string \<Rightarrow> thrown + string"
  numberToString :: "rat \<Rightarrow> string"

text \<open>\<open>assemblePaymentRequirements\<close> of \<open>payment-utils.ts\<close>.\<close>

definition assemblePaymentRequirements ::
  "Externals \<Rightarrow> PaymentOptions \<Rightarrow> string \<Rightarrow> X402Config \<Rightarrow> string option
     \<Rightarrow> thrown + PaymentRequirements" where
  "assemblePaymentRequirements ext options resourcePath x402Config baseUrl =
     (case processPriceToAtomicAmount ext (amount options) (cfg_network x402Config) of
        Inl err \<Rightarrow>
          Inl (JsError None
            (''Failed to process price for amount '' @ numberToString ext (amount options) @
             '' on network '' @ cfg_network x402Config @ '': '' @ err))
      | Inr result \<Rightarrow>
          (case (case baseUrl of
                   None \<Rightarrow> Inr resourcePath
                 | Some b \<Rightarrow> if b = [] then Inr resourcePath
                             else URL_toString ext resourcePath b) of
             Inl err \<Rightarrow> Inl err
           | Inr resourceUrl \<Rightarrow>
               Inr \<lparr> scheme = ''exact'', network = cfg_network x402Config,
                     maxAmountRequired = pa_maxAmountRequired result,
                     resource = resourceUrl,
                     description = (case po_description options of None \<Rightarrow> [] | Some d \<Rightarrow> d),
                     mimeType = ''application/json'', payTo = cfg_payTo x402Config,
                     maxTimeoutSeconds = 60, asset = pa_address result,
                     outputSchema = None, extra = pa_eip712 result \<rparr>))"

section \<open>Server: the handler wrapper\<close>

text \<open>
  A registered handler (\<open>HandlerInfo\<close>). The handler body is developer code: given its
  arguments and the context object it returns or throws, and it may change the context
  object it was handed, so the model gives it the context and takes the context back.
\<close>

datatype HandlerType = Tool | Prompt | Resource | ResourceTemplate

record Args =
  uri :: "string option"
  variables :: "string option"
  input :: string

datatype HandlerCall =
    CallArgs Args
  | CallUri "string option"
  | CallUriVariables "string option" "string option"

type_synonym Handler = "HandlerCall \<Rightarrow> Extra \<Rightarrow> (thrown + string) \<times> Extra"

record HandlerInfo =
  name :: string
  handler :: Handler
  type :: HandlerType
  paymentOptions :: "PaymentOptions option"

text \<open>The call the wrapper makes for each handler type.\<close>

definition handlerCall :: "HandlerInfo \<Rightarrow> Args \<Rightarrow> HandlerCall" where
  "handlerCall handlerInfo args =
     (if type handlerInfo = Resource then CallUri (uri args)
      else if type handlerInfo = ResourceTemplate then CallUriVariables (uri args) (variables args)
      else CallArgs args)"

text \<open>
  \<open>HandlerWrapperFactory.createWrappedHandler\<close>. \<open>wrapped_try\<close> is the \<open>try\<close>
  block: validate when the handler is protected (step 1, \<open>validateIfRequired\<close>), run the
  handler (step 2), settle when it is protected (step 3). \<open>createWrappedHandler\<close> adds the \<open>catch\<close> block (a \<open>PaymentError\<close> is
  re-thrown, anything else is wrapped) and the \<open>finally\<close> block, which deletes the two
  payment fields of the context (the session layer always passes a context object, so
  the \<open>if (extra)\<close> around the deletion is taken). The result is paired with the final state: the context
  as the wrapper leaves it and the trace of the invocation.
\<close>

definition validateIfRequired ::
  "Externals \<Rightarrow> Session \<Rightarrow> PaymentOrchestratorOptions \<Rightarrow> X402Config \<Rightarrow> HandlerInfo
     \<Rightarrow> state \<Rightarrow> (thrown + unit) \<times> state" where
  "validateIfRequired ext sess opts x402Config handlerInfo s =
     (case paymentOptions handlerInfo of
        None \<Rightarrow> (Inr (), s)
      | Some po \<Rightarrow>
          (case assemblePaymentRequirements ext po (''/tools/'' @ name handlerInfo)
                  x402Config (cfg_baseUrl x402Config) of
             Inl err \<Rightarrow> (Inl err, s)
           | Inr reqs \<Rightarrow> validatePayment sess opts (name handlerInfo) reqs s))"

definition wrapped_try ::
  "Externals \<Rightarrow> Session \<Rightarrow> PaymentOrchestratorOptions \<Rightarrow> X402Config \<Rightarrow> HandlerInfo
     \<Rightarrow> Args \<Rightarrow> state \<Rightarrow> (thrown + string) \<times> state" where
  "wrapped_try ext sess opts x402Config handlerInfo args s =
     (case validateIfRequired ext sess opts x402Config handlerInfo s of
        (Inl err, s1) \<Rightarrow> (Inl err, s1)
      | (Inr u, s1) \<Rightarrow>
          (case handler handlerInfo (handlerCall handlerInfo args) (ctx s1) of
             (Inl err, ex') \<Rightarrow> (Inl err, (emit (HandlerRan (ctx s1)) s1)\<lparr>ctx := ex'\<rparr>)
           | (Inr result, ex') \<Rightarrow>
               (case paymentOptions handlerInfo of
                  None \<Rightarrow> (Inr result, (emit (HandlerRan (ctx s1)) s1)\<lparr>ctx := ex'\<rparr>)
                | Some po \<Rightarrow>
                    (case settlePayment sess opts ((emit (HandlerRan (ctx s1)) s1)\<lparr>ctx := ex'\<rparr>) of
                       (Inl err, s3) \<Rightarrow> (Inl err, s3)
                     | (Inr u, s3) \<Rightarrow> (Inr result, s3)))))"

definition createWrappedHandler ::
  "Externals \<Rightarrow> Session \<Rightarrow> PaymentOrchestratorOptions \<Rightarrow> X402Config \<Rightarrow> HandlerInfo
     \<Rightarrow> Args \<Rightarrow> Extra \<Rightarrow> (thrown + string) \<times> state" where
  "createWrappedHandler ext sess opts x402Config handlerInfo args ex =
     (case wrapped_try ext sess opts x402Config handlerInfo args \<lparr>ctx = ex, trace = []\<rparr> of
        (r, s) \<Rightarrow>
          ((case r of
              Inr result \<Rightarrow> Inr result
            | Inl err \<Rightarrow>
                if isPaymentError err then Inl err
                else Inl (JsError None (''Handler execution failed: '' @ errorText err))),
           s\<lparr>ctx := (ctx s)\<lparr>paymentProof := None, paymentRequirements := None\<rparr>\<rparr>))"

section \<open>Server: decorators and the handler registry\<close>

text \<open>
  The decorator options (only the members the registry and the wrapper read), a class as
  the list of its prototype's own properties in \<open>Object.getOwnPropertyNames\<close> order,
  each with the metadata the decorators attached to it, and the process-wide registry of
  \<open>decorators/registry.ts\<close>, keyed by \<open>Class.method\<close>.
\<close>

record MCPToolOptions =
  to_name :: string
  to_payment :: "PaymentOptions option"

record MCPPromptOptions =
  pro_name :: string
  pro_payment :: "PaymentOptions option"

record MCPResourceOptions =
  ro_name :: string
  ro_template :: "string option"
  ro_payment :: "PaymentOptions option"

record Method =
  methodName :: string
  isFunction :: bool
  body :: Handler
  toolOptions :: "MCPToolOptions option"
  promptOptions :: "MCPPromptOptions option"
  resourceOptions :: "MCPResourceOptions option"

type_synonym HandlerClass = "Method list"

record RegisteredHandler =
  rh_target :: string
  rh_propertyKey :: string
  rh_toolOptions :: "MCPToolOptions option"
  rh_promptOptions :: "MCPPromptOptions option"
  rh_resourceOptions :: "MCPResourceOptions option"

type_synonym GlobalRegistry = "string \<rightharpoonup> RegisteredHandler"

definition getHandlerKey :: "string \<Rightarrow> string \<Rightarrow> string" where
  "getHandlerKey ctorName propertyKey = ctorName @ ''.'' @ propertyKey"

text \<open>\<open>registerHandler\<close>: \<open>{ ...existing, ...handler }\<close> keeps a member of
  \<open>existing\<close> that \<open>handler\<close> does not have.\<close>

definition registerHandler :: "RegisteredHandler \<Rightarrow> GlobalRegistry \<Rightarrow> GlobalRegistry" where
  "registerHandler h registry =
     (let key = getHandlerKey (rh_target h) (rh_propertyKey h)
      in case registry key of
           None \<Rightarrow> registry(key \<mapsto> h)
         | Some existing \<Rightarrow>
             registry(key \<mapsto>
               \<lparr> rh_target = rh_target h, rh_propertyKey = rh_propertyKey h,
                 rh_toolOptions = (case rh_toolOptions h of
                     None \<Rightarrow> rh_toolOptions existing | Some x \<Rightarrow> Some x),
                 rh_promptOptions = (case rh_promptOptions h of
                     None \<Rightarrow> rh_promptOptions existing | Some x \<Rightarrow> Some x),
                 rh_resourceOptions = (case rh_resourceOptions h of
                     None \<Rightarrow> rh_resourceOptions existing | Some x \<Rightarrow> Some x) \<rparr>))"

text \<open>
  The decorator \<open>MCPTool(options)\<close> applied to a method of class \<open>ctorName\<close>:
  \<open>Reflect.defineMetadata\<close> on the method, then \<open>registerHandler\<close>. It reads no member
  of \<open>options\<close>.
\<close>

definition MCPTool ::
  "MCPToolOptions \<Rightarrow> string \<Rightarrow> Method \<Rightarrow> GlobalRegistry \<Rightarrow> Method \<times> GlobalRegistry" where
  "MCPTool options ctorName m registry =
     (m\<lparr>toolOptions := Some options\<rparr>,
      registerHandler
        \<lparr> rh_target = ctorName, rh_propertyKey = methodName m,
          rh_toolOptions = Some options, rh_promptOptions = None,
          rh_resourceOptions = None \<rparr> registry)"

text \<open>
  \<open>HandlerRegistry.extractHandlersFromInstance\<close>: one pass over the methods; the
  first of tool, prompt and resource metadata that is present decides the type.
\<close>

definition extractHandler :: "Method \<Rightarrow> HandlerInfo list" where
  "extractHandler m =
     (if methodName m = ''constructor'' then []
      else if \<not> isFunction m then []
      else case toolOptions m of
        Some t \<Rightarrow>
          [\<lparr> name = to_name t, handler = body m, type = Tool,
             paymentOptions = to_payment t \<rparr>]
      | None \<Rightarrow>
          (case promptOptions m of
             Some p \<Rightarrow>
               [\<lparr> name = pro_name p, handler = body m, type = Prompt,
                  paymentOptions = pro_payment p \<rparr>]
           | None \<Rightarrow>
               (case resourceOptions m of
                  None \<Rightarrow> []
                | Some r \<Rightarrow>
                    if (case ro_template r of None \<Rightarrow> False | Some t \<Rightarrow> t \<noteq> []) then
                      [\<lparr> name = ro_name r, handler = body m, type = ResourceTemplate,
                         paymentOptions = ro_payment r \<rparr>]
                    else
                      [\<lparr> name = ro_name r, handler = body m, type = Resource,
                         paymentOptions = ro_payment r \<rparr>])))"

fun extractHandlersFromInstance :: "HandlerClass \<Rightarrow> HandlerInfo list" where
  "extractHandlersFromInstance [] = []"
| "extractHandlersFromInstance (m # ms) = extractHandler m @ extractHandlersFromInstance ms"

record SessionHandlers =
  tools :: "HandlerInfo list"
  prompts :: "HandlerInfo list"
  resources :: "HandlerInfo list"
  resourceTemplates :: "HandlerInfo list"

text \<open>\<open>HandlerRegistry.createSessionHandlers\<close>: the two nested loops with the
  \<open>switch\<close> on the handler type.\<close>

definition pushHandler :: "SessionHandlers \<Rightarrow> HandlerInfo \<Rightarrow> SessionHandlers" where
  "pushHandler sh h =
     (case type h of
        Tool \<Rightarrow> sh\<lparr>tools := tools sh @ [h]\<rparr>
      | Prompt \<Rightarrow> sh\<lparr>prompts := prompts sh @ [h]\<rparr>
      | Resource \<Rightarrow> sh\<lparr>resources := resources sh @ [h]\<rparr>
      | ResourceTemplate \<Rightarrow> sh\<lparr>resourceTemplates := resourceTemplates sh @ [h]\<rparr>)"

definition createSessionHandlers :: "HandlerClass list \<Rightarrow> SessionHandlers" where
  "createSessionHandlers handlerClasses =
     foldl (\<lambda>sh cls. foldl pushHandler sh (extractHandlersFromInstance cls))
       \<lparr> tools = [], prompts = [], resources = [], resourceTemplates = [] \<rparr>
       handlerClasses"

section \<open>Client: the audit ledger\<close>

text \<open>
  \<open>PaymentAuditRecord\<close> and \<open>PaymentAuditStorage\<close> of \<open>client/PaymentAuditStore.ts\<close>.
  The ledger sits on an \<open>IStorageInterface\<close>; the store is modelled as the map from keys
  to values that \<open>get\<close>, \<open>set\<close> and \<open>delete\<close> describe (the \<open>Map\<close>-backed store of
  the repository's tests), a stored value being the record that \<open>JSON.stringify\<close>
  wrote and \<open>JSON.parse\<close> reads back. Dates are instants (milliseconds), and the instant
  \<open>new Date()\<close> yields is an argument.
\<close>

datatype Status = Pending | Completed | Failed

record PaymentAuditRecord =
  ar_requestId :: string
  serverId :: string
  ar_method :: string
  ar_params :: "string option"
  paymentAmount :: "string option"
  paymentNetwork :: "string option"
  paymentAsset :: "string option"
  paymentPayTo :: "string option"
  requestStatus :: Status
  paymentStatus :: Status
  createdAt :: nat
  requestCompletedAt :: "nat option"
  paymentCompletedAt :: "nat option"
  ar_errorReason :: "string option"
  transactionHash :: "string option"
  payerAddress :: "string option"

record PendingRequest =
  pr_requestId :: string
  pr_serverId :: string
  pr_method :: string
  pr_params :: "string option"
  pr_paymentAmount :: "string option"
  pr_paymentNetwork :: "string option"
  pr_paymentAsset :: "string option"
  pr_paymentPayTo :: "string option"

record StatusDetails =
  sd_transactionHash :: "string option"
  sd_payerAddress :: "string option"
  sd_errorReason :: "string option"
  sd_completedAt :: "nat option"

type_synonym Storage = "string \<rightharpoonup> PaymentAuditRecord"

definition PENDING_PREFIX :: string where
  "PENDING_PREFIX = ''pending:''"

definition buildPendingKey :: "string \<Rightarrow> string" where
  "buildPendingKey rid = PENDING_PREFIX @ rid"

definition storePendingRequest :: "PendingRequest \<Rightarrow> nat \<Rightarrow> Storage \<Rightarrow> thrown + Storage" where
  "storePendingRequest record now storage =
     (if pr_requestId record = [] then
        Inl (JsError None ''Invalid audit record: missing request id'')
      else
        Inr (storage(buildPendingKey (pr_requestId record) \<mapsto>
          \<lparr> ar_requestId = pr_requestId record, serverId = pr_serverId record,
            ar_method = pr_method record, ar_params = pr_params record,
            paymentAmount = pr_paymentAmount record,
            paymentNetwork = pr_paymentNetwork record,
            paymentAsset = pr_paymentAsset record, paymentPayTo = pr_paymentPayTo record,
            requestStatus = Pending, paymentStatus = Pending, createdAt = now,
            requestCompletedAt = None, paymentCompletedAt = None, ar_errorReason = None,
            transactionHash = None, payerAddress = None \<rparr>)))"

definition getPendingRequest :: "string \<Rightarrow> Storage \<Rightarrow> PaymentAuditRecord option" where
  "getPendingRequest rid storage = storage (buildPendingKey rid)"

definition markRequestCompleted :: "string \<Rightarrow> nat option \<Rightarrow> nat \<Rightarrow> Storage \<Rightarrow> Storage" where
  "markRequestCompleted rid completedAt now storage =
     (case storage (buildPendingKey rid) of
        None \<Rightarrow> storage
      | Some record \<Rightarrow>
          storage(rid \<mapsto> record\<lparr> requestStatus := Completed,
            requestCompletedAt := Some (case completedAt of None \<Rightarrow> now | Some d \<Rightarrow> d) \<rparr>))"

text \<open>\<open>if (details?.transactionHash)\<close>: the member is present and not the empty string.\<close>

definition present :: "string option \<Rightarrow> bool" where
  "present v = (case v of None \<Rightarrow> False | Some x \<Rightarrow> x \<noteq> [])"

definition applyStatus ::
  "Status \<Rightarrow> StatusDetails option \<Rightarrow> nat \<Rightarrow> PaymentAuditRecord \<Rightarrow> PaymentAuditRecord" where
  "applyStatus status details now record =
     (let r1 = record\<lparr> paymentStatus := status,
                 paymentCompletedAt := Some (case details of
                     None \<Rightarrow> now
                   | Some d \<Rightarrow> (case sd_completedAt d of None \<Rightarrow> now | Some t \<Rightarrow> t)) \<rparr>;
          r2 = (case details of
                  Some d \<Rightarrow> if present (sd_transactionHash d)
                            then r1\<lparr>transactionHash := sd_transactionHash d\<rparr> else r1
                | None \<Rightarrow> r1);
          r3 = (case details of
                  Some d \<Rightarrow> if present (sd_payerAddress d)
                            then r2\<lparr>payerAddress := sd_payerAddress d\<rparr> else r2
                | None \<Rightarrow> r2)
      in (case details of
            Some d \<Rightarrow> if present (sd_errorReason d)
                      then r3\<lparr>ar_errorReason := sd_errorReason d\<rparr> else r3
          | None \<Rightarrow> r3))"

definition updatePaymentStatus ::
  "string \<Rightarrow> Status \<Rightarrow> StatusDetails option \<Rightarrow> nat \<Rightarrow> Storage \<Rightarrow> Storage" where
  "updatePaymentStatus rid status details now storage =
     (case storage (buildPendingKey rid) of
        None \<Rightarrow> storage
      | Some record \<Rightarrow>
          if status \<noteq> Pending then storage(rid \<mapsto> applyStatus status details now record)
          else storage(buildPendingKey rid \<mapsto> applyStatus status details now record))"

definition removePendingRequest :: "string \<Rightarrow> Storage \<Rightarrow> Storage" where
  "removePendingRequest rid storage = storage(rid := None)"

section \<open>Client: guardrails and the payment responder\<close>

text \<open>
  \<open>GuardrailsService.enforce\<close> of \<open>client/X402MCPClient.ts\<close>: the per-call cap,
  then the allowlist; the first argument prints a number inside the message.
\<close>

record Guardrails =
  maxPaymentPerCall :: "rat option"
  whitelistedServers :: "string list option"

definition enforceWhitelist :: "Guardrails \<Rightarrow> string \<Rightarrow> thrown option" where
  "enforceWhitelist g recipient =
     (case whitelistedServers g of
        None \<Rightarrow> None
      | Some wl \<Rightarrow>
          if recipient \<notin> set wl then
            Some (PaymentError WHITELIST_VIOLATION
              (''Payment recipient '' @ recipient @ '' is not whitelisted'')
              (WhitelistDetails recipient wl))
          else None)"

definition enforce :: "(rat \<Rightarrow> string) \<Rightarrow> Guardrails \<Rightarrow> rat \<Rightarrow> string \<Rightarrow> thrown option" where
  "enforce printNum g usd recipient =
     (case maxPaymentPerCall g of
        None \<Rightarrow> enforceWhitelist g recipient
      | Some m \<Rightarrow>
          if usd > m then
            Some (PaymentError GUARDRAIL_VIOLATION
              (''Payment exceeds max per-call limit: $'' @ printNum usd @ '' > $'' @ printNum m)
              (GuardrailDetails usd m))
          else enforceWhitelist g recipient)"

text \<open>
  What the responder calls but does not define: the pricer applied to the atomic amount
  string (used for the asset's decimals), \<open>parseFloat(formatUnits(BigInt(amount),
  decimals))\<close>, which throws when the string is no integer, the wallet's
  \<open>createAccount\<close>, and \<open>exact.evm.createPayment\<close>, which signs. The client's state is
  its ledger, when it was given one, and the trace of the calls the responder makes.
\<close>

record ClientExternals =
  priceOf :: "string \<Rightarrow> string \<Rightarrow> string + PricedAsset"
  formatUsd :: "string \<Rightarrow> nat \<Rightarrow> thrown + rat"
  createAccount :: "thrown + string"
  createPayment :: "string \<Rightarrow> int \<Rightarrow> ExtendedPaymentRequirements \<Rightarrow> thrown + PaymentPayload"
  printNumber :: "rat \<Rightarrow> string"

datatype client_event =
    LedgerGetPending string
  | LedgerUpdateStatus string Status
  | GuardrailsEnforce rat string
  | WalletCreateAccount
  | SignPayment string

record ClientState =
  auditStorage :: "Storage option"
  ctrace :: "client_event list"

definition cemit :: "client_event \<Rightarrow> ClientState \<Rightarrow> ClientState" where
  "cemit e st = st\<lparr>ctrace := ctrace st @ [e]\<rparr>"

text \<open>The calls that obtain an account or sign, and the calls that touch the ledger.\<close>

fun isSigningEvent :: "client_event \<Rightarrow> bool" where
  "isSigningEvent WalletCreateAccount = True"
| "isSigningEvent (SignPayment account) = True"
| "isSigningEvent e = False"

fun isLedgerEvent :: "client_event \<Rightarrow> bool" where
  "isLedgerEvent (LedgerGetPending rid) = True"
| "isLedgerEvent (LedgerUpdateStatus rid status) = True"
| "isLedgerEvent e = False"

text \<open>
  A challenge that passes the basic checks of \<open>handlePaymentRequired\<close>: recipient,
  amount and network present, scheme \<open>exact\<close>, version 1, and a request id. A challenge
  is known to the ledger when the client has no ledger or the ledger holds a pending
  record for its request id.
\<close>

definition knownToLedger :: "ClientState \<Rightarrow> ExtendedPaymentRequirements \<Rightarrow> bool" where
  "knownToLedger st params =
     (case auditStorage st of
        None \<Rightarrow> True
      | Some storage \<Rightarrow>
          (case requestId params of
             None \<Rightarrow> False
           | Some rid \<Rightarrow> getPendingRequest rid storage \<noteq> None))"

definition wellFormedChallenge :: "ExtendedPaymentRequirements \<Rightarrow> bool" where
  "wellFormedChallenge params =
     (payTo params \<noteq> [] \<and> maxAmountRequired params \<noteq> [] \<and> network params \<noteq> [] \<and>
      scheme params = ''exact'' \<and> x402Version params = 1 \<and> present (requestId params))"

text \<open>Steps 5 to 8 of \<open>handlePaymentRequired\<close>: account, signed payload, response.\<close>

definition signPayment ::
  "ClientExternals \<Rightarrow> PaymentRequiredRequest \<Rightarrow> ClientState
     \<Rightarrow> (thrown + PaymentRequiredResponse) \<times> ClientState" where
  "signPayment ext request st =
     (let st1 = cemit WalletCreateAccount st
      in case createAccount ext of
           Inl err \<Rightarrow> (Inl err, st1)
         | Inr account \<Rightarrow>
             (let st2 = cemit (SignPayment account) st1
              in case createPayment ext account (x402Version (rq_params request))
                        (rq_params request) of
                   Inl err \<Rightarrow> (Inl err, st2)
                 | Inr paymentPayload \<Rightarrow>
                     (Inr \<lparr> rs_id = rq_id request, rs_payment = Some paymentPayload \<rparr>, st2)))"

text \<open>Step 4 of \<open>handlePaymentRequired\<close>, guardrails when configured, then the signing steps.\<close>

definition guardrailsThenSign ::
  "ClientExternals \<Rightarrow> Guardrails option \<Rightarrow> PaymentRequiredRequest \<Rightarrow> ClientState
     \<Rightarrow> (thrown + PaymentRequiredResponse) \<times> ClientState" where
  "guardrailsThenSign ext guardrails request st =
     (let params = rq_params request
      in case guardrails of
           None \<Rightarrow> signPayment ext request st
         | Some g \<Rightarrow>
             (case priceOf ext (maxAmountRequired params) (network params) of
                Inl err \<Rightarrow>
                  (Inl (PaymentError PAYMENT_INVALID
                     (''Failed to process payment amount: '' @ err) NoDetails), st)
              | Inr atomicAmount \<Rightarrow>
                  (case formatUsd ext (maxAmountRequired params) (pa_decimals atomicAmount) of
                     Inl err \<Rightarrow> (Inl err, st)
                   | Inr usdAmount \<Rightarrow>
                       (let st1 = cemit (GuardrailsEnforce usdAmount (payTo params)) st
                        in case enforce (printNumber ext) g usdAmount (payTo params) of
                             Some err \<Rightarrow> (Inl err, st1)
                           | None \<Rightarrow> signPayment ext request st1))))"

text \<open>
  \<open>X402MCPClient.handlePaymentRequired\<close>: the basic checks, the ledger lookup and update
  when the client has a ledger, then guardrails and signing.
\<close>

definition handlePaymentRequired ::
  "ClientExternals \<Rightarrow> Guardrails option \<Rightarrow> nat \<Rightarrow> PaymentRequiredRequest \<Rightarrow> ClientState
     \<Rightarrow> (thrown + PaymentRequiredResponse) \<times> ClientState" where
  "handlePaymentRequired ext guardrails now request st =
     (let params = rq_params request
      in if payTo params = [] \<or> maxAmountRequired params = [] \<or> network params = [] then
           (Inl (JsError None ''Invalid payment_required request: missing required fields''), st)
         else if scheme params \<noteq> ''exact'' then
           (Inl (JsError None (''Unsupported scheme: '' @ scheme params)), st)
         else if x402Version params \<noteq> 1 then
           (Inl (JsError None (''Unsupported x402 version: '' @
                   printNumber ext (of_int (x402Version params)))), st)
         else
           (case requestId params of
              None \<Rightarrow>
                (Inl (PaymentError PAYMENT_INVALID ''Payment request missing requestId'' NoDetails), st)
            | Some rid \<Rightarrow>
                if rid = [] then
                  (Inl (PaymentError PAYMENT_INVALID ''Payment request missing requestId'' NoDetails), st)
                else
                  (case auditStorage st of
                     None \<Rightarrow> guardrailsThenSign ext guardrails request st
                   | Some storage \<Rightarrow>
                       (let st1 = cemit (LedgerGetPending rid) st
                        in case getPendingRequest rid storage of
                             None \<Rightarrow>
                               (Inl (PaymentError PAYMENT_INVALID
                                  (''Payment request for unknown payment: '' @ rid) NoDetails), st1)
                           | Some matchingRequest \<Rightarrow>
                               guardrailsThenSign ext guardrails request
                                 ((cemit (LedgerUpdateStatus rid Pending) st1)
                                    \<lparr>auditStorage := Some (updatePaymentStatus rid Pending
                                       (Some \<lparr> sd_transactionHash = None, sd_payerAddress = None,
                                               sd_errorReason = None, sd_completedAt = Some now \<rparr>)
                                       now storage)\<rparr>)))))"

section \<open>Scenarios\<close>

text \<open>
  Concrete collaborators for the end-to-end scenarios: the mock facilitator of
  \<open>facilitators/mockFacilitator.ts\<close>, a client that answers the challenge with a signed
  payload for the demanded network, clients whose transport answers with an error, a
  pricer for six-decimal dollars, and handler bodies: one that returns, one that throws,
  one that reports whether it sees the payment fields, and one that overwrites the
  request id of the context it is handed.
\<close>

definition mockValidate :: "bool \<Rightarrow> PaymentPayload \<Rightarrow> PaymentRequirements \<Rightarrow> thrown + ValidationResult" where
  "mockValidate shouldValidate payload reqs =
     (if shouldValidate then Inr \<lparr> isValid = True, invalidReason = None \<rparr>
      else Inr \<lparr> isValid = False, invalidReason = Some ''Mock validation failed'' \<rparr>)"

definition mockExecute ::
  "bool \<Rightarrow> string \<Rightarrow> PaymentPayload \<Rightarrow> PaymentRequirements \<Rightarrow> thrown + PaymentResult" where
  "mockExecute shouldExecute mockTxHash payload reqs =
     (if shouldExecute then
        Inr \<lparr> success = True, errorReason = None, transaction = Some mockTxHash,
              pres_network = Some (network reqs),
              payer = Some ''0x1234567890123456789012345678901234567890'' \<rparr>
      else
        Inr \<lparr> success = False, errorReason = Some ''unexpected_settle_error'',
              transaction = Some ''0x'', pres_network = None, payer = None \<rparr>)"

definition payingClient :: "PaymentRequiredRequest \<Rightarrow> thrown + PaymentRequiredResponse" where
  "payingClient rq =
     Inr \<lparr> rs_id = rq_id rq,
           rs_payment = Some \<lparr> pp_x402Version = 1, pp_scheme = ''exact'',
             pp_network = network (rq_params rq),
             pp_payload = Some \<lparr> signature = Some ''0xsigned'', authorization = ''auth'' \<rparr> \<rparr> \<rparr>"

definition failingClient :: "thrown \<Rightarrow> PaymentRequiredRequest \<Rightarrow> thrown + PaymentRequiredResponse" where
  "failingClient err rq = Inl err"

definition demoSession ::
  "(PaymentRequiredRequest \<Rightarrow> thrown + PaymentRequiredResponse) \<Rightarrow> bool \<Rightarrow> Session" where
  "demoSession client shouldExecute =
     \<lparr> sendRequest = client,
       sendNotification = (\<lambda>n. None),
       facilitator_validatePayment = mockValidate True,
       facilitator_executePayment = mockExecute shouldExecute ''0xabc'' \<rparr>"

definition demoOptions :: PaymentOrchestratorOptions where
  "demoOptions = \<lparr> opt_payTo = ''0xPAYEE'', opt_network = ''base-sepolia'' \<rparr>"

definition demoConfig :: X402Config where
  "demoConfig = \<lparr> cfg_payTo = ''0xPAYEE'', cfg_network = ''base-sepolia'', cfg_baseUrl = None \<rparr>"

definition demoExternals :: Externals where
  "demoExternals =
     \<lparr> processPriceToAtomicAmount = (\<lambda>a n. Inr \<lparr> pa_maxAmountRequired = ''1000'',
          pa_address = ''0xUSDC'', pa_decimals = 6, pa_eip712 = None \<rparr>),
       URL_toString = (\<lambda>path base. Inr (base @ path)),
       numberToString = (\<lambda>a. ''0.001'') \<rparr>"

definition demoRequirements :: PaymentRequirements where
  "demoRequirements =
     \<lparr> scheme = ''exact'', network = ''base-sepolia'', maxAmountRequired = ''1000'',
       resource = ''/tools/add-numbers'', description = ''Pay for calculation'',
       mimeType = ''application/json'', payTo = ''0xPAYEE'', maxTimeoutSeconds = 60,
       asset = ''0xUSDC'', outputSchema = None, extra = None \<rparr>"

definition demoExtra :: Extra where
  "demoExtra = \<lparr> ex_requestId = ''7'', paymentProof = None, paymentRequirements = None \<rparr>"

definition demoProof :: PaymentPayload where
  "demoProof =
     \<lparr> pp_x402Version = 1, pp_scheme = ''exact'', pp_network = ''base-sepolia'',
       pp_payload = Some \<lparr> signature = Some ''0xsigned'', authorization = ''auth'' \<rparr> \<rparr>"

definition verifiedExtra :: Extra where
  "verifiedExtra =
     demoExtra\<lparr> paymentProof := Some demoProof, paymentRequirements := Some demoRequirements \<rparr>"

definition demoArgs :: Args where
  "demoArgs = \<lparr> uri = None, variables = None, input = ''a=10,b=20'' \<rparr>"

definition addNumbers :: Handler where
  "addNumbers call ex = (Inr ''Result: 30'', ex)"

definition boom :: Handler where
  "boom call ex = (Inl (JsError None ''boom''), ex)"

definition spy :: Handler where
  "spy call ex =
     (if paymentProof ex \<noteq> None \<and> paymentRequirements ex \<noteq> None
      then Inr ''payment fields visible'' else Inr ''payment fields absent'', ex)"


definition paidTool :: "Handler \<Rightarrow> rat \<Rightarrow> HandlerInfo" where
  "paidTool h price =
     \<lparr> name = ''add-numbers'', handler = h, type = Tool,
       paymentOptions = Some \<lparr> amount = price, po_description = Some ''Pay for calculation'' \<rparr> \<rparr>"

definition demoClass :: "rat \<Rightarrow> HandlerClass" where
  "demoClass price =
     [\<lparr> methodName = ''constructor'', isFunction = True, body = addNumbers,
        toolOptions = None, promptOptions = None, resourceOptions = None \<rparr>,
      fst (MCPTool \<lparr> to_name = ''add-numbers'',
                     to_payment = Some \<lparr> amount = price, po_description = None \<rparr> \<rparr>
             ''Calculator''
             \<lparr> methodName = ''add'', isFunction = True, body = addNumbers,
               toolOptions = None, promptOptions = None, resourceOptions = None \<rparr>
             Map.empty)]"

definition demoPending :: PendingRequest where
  "demoPending =
     \<lparr> pr_requestId = ''7'', pr_serverId = ''http://localhost:3000/mcp'',
       pr_method = ''tools/call'', pr_params = None, pr_paymentAmount = None,
       pr_paymentNetwork = None, pr_paymentAsset = None, pr_paymentPayTo = None \<rparr>"

definition demoRecord :: PaymentAuditRecord where
  "demoRecord =
     \<lparr> ar_requestId = ''7'', serverId = ''http://localhost:3000/mcp'',
       ar_method = ''tools/call'', ar_params = None, paymentAmount = None,
       paymentNetwork = None, paymentAsset = None, paymentPayTo = None,
       requestStatus = Pending, paymentStatus = Pending, createdAt = 100,
       requestCompletedAt = None, paymentCompletedAt = None, ar_errorReason = None,
       transactionHash = None, payerAddress = None \<rparr>"

definition demoLedger :: Storage where
  "demoLedger = (case storePendingRequest demoPending 100 Map.empty of
                   Inl err \<Rightarrow> Map.empty | Inr st \<Rightarrow> st)"

definition demoClientExternals :: ClientExternals where
  "demoClientExternals =
     \<lparr> priceOf = (\<lambda>a n. Inr \<lparr> pa_maxAmountRequired = a, pa_address = ''0xUSDC'',
                               pa_decimals = 6, pa_eip712 = None \<rparr>),
       formatUsd = (\<lambda>a d. if a = ''1000'' then Inr (1 / 1000)
                          else if a = ''20000'' then Inr (1 / 50)
                          else Inl (JsError None ''Cannot convert to a BigInt'')),
       createAccount = Inr ''0xACCOUNT'',
       createPayment = (\<lambda>account v params.
          Inr \<lparr> pp_x402Version = v, pp_scheme = ''exact'', pp_network = network params,
                pp_payload = Some \<lparr> signature = Some ''0xsigned'', authorization = account \<rparr> \<rparr>),
       printNumber = (\<lambda>a. ''0.001'') \<rparr>"

definition demoGuardrails :: Guardrails where
  "demoGuardrails = \<lparr> maxPaymentPerCall = Some (1 / 1000), whitelistedServers = None \<rparr>"

definition demoAllowlist :: "string list \<Rightarrow> Guardrails" where
  "demoAllowlist servers =
     \<lparr> maxPaymentPerCall = Some (1 / 1000), whitelistedServers = Some servers \<rparr>"

definition demoClient :: ClientState where
  "demoClient = \<lparr> auditStorage = Some demoLedger, ctrace = [] \<rparr>"

definition bareClient :: ClientState where
  "bareClient = \<lparr> auditStorage = None, ctrace = [] \<rparr>"

definition demoChallenge :: "string \<Rightarrow> PaymentRequiredRequest" where
  "demoChallenge atomic = buildPaymentRequest (demoRequirements\<lparr>maxAmountRequired := atomic\<rparr>) ''7''"

section \<open>Traces of the orchestrator and the wrapper\<close>

lemma sendPaymentRequiredRequest_trace:
  "sendPaymentRequiredRequest sess opts reqs s = (r, s') \<Longrightarrow>
     \<exists>evs. trace s' = trace s @ evs \<and> list_all isValidationEvent evs"
  by (auto simp: sendPaymentRequiredRequest_def emit_def Let_def split: sum.splits if_splits)

lemma validatePaymentProof_trace:
  "validatePaymentProof sess resp reqs s = (r, s') \<Longrightarrow>
     \<exists>evs. trace s' = trace s @ evs \<and> list_all isValidationEvent evs"
  by (auto simp: validatePaymentProof_def emit_def Let_def split: sum.splits if_splits option.splits)

lemma validatePayment_trace:
  assumes "validatePayment sess opts n reqs s = (r, s')"
  shows "\<exists>evs. trace s' = trace s @ evs \<and> list_all isValidationEvent evs"
proof (cases "sendPaymentRequiredRequest sess opts reqs s")
  case (Pair a s1)
  from sendPaymentRequiredRequest_trace[OF Pair] obtain e1 where
    e1: "trace s1 = trace s @ e1" "list_all isValidationEvent e1" by blast
  show ?thesis
  proof (cases a)
    case (Inl err)
    with assms Pair e1 show ?thesis by (auto simp: validatePayment_def)
  next
    case (Inr resp)
    obtain b s2 where vp: "validatePaymentProof sess resp reqs s1 = (b, s2)" by force
    from validatePaymentProof_trace[OF vp] obtain e2 where
      e2: "trace s2 = trace s1 @ e2" "list_all isValidationEvent e2" by blast
    from assms Pair Inr vp have "s' = s2" by (auto simp: validatePayment_def split: sum.splits)
    with e1 e2 show ?thesis by auto
  qed
qed

lemma validateIfRequired_trace:
  assumes "validateIfRequired ext sess opts cfg h s = (r, s1)"
  shows "\<exists>evs. trace s1 = trace s @ evs \<and> list_all isValidationEvent evs"
  using assms
  by (auto simp: validateIfRequired_def split: option.splits sum.splits dest: validatePayment_trace)

lemma settlePayment_try_trace:
  "settlePayment_try sess s = (r, s') \<Longrightarrow>
     \<exists>evs. trace s' = trace s @ evs \<and> list_all isSettlementEvent evs"
  by (auto simp: settlePayment_try_def emit_def Let_def split: sum.splits if_splits option.splits)

lemma settlePayment_trace:
  assumes "settlePayment sess opts s = (r, s')"
  shows "\<exists>evs. trace s' = trace s @ evs \<and> list_all isSettlementEvent evs"
proof -
  obtain a s1 where t: "settlePayment_try sess (emit SettleCalled s) = (a, s1)" by force
  from settlePayment_try_trace[OF t] obtain e1 where
    e1: "trace s1 = trace s @ SettleCalled # e1" "list_all isSettlementEvent e1"
    by (auto simp: emit_def)
  from assms t e1 show ?thesis
    by (auto simp: settlePayment_def emit_def Let_def split: sum.splits option.splits if_splits)
qed

lemma validation_events_no_HandlerRan:
  "list_all isValidationEvent evs \<Longrightarrow> HandlerRan c \<notin> set evs"
  by (induction evs) auto

lemma settlement_events_no_HandlerRan:
  "list_all isSettlementEvent evs \<Longrightarrow> HandlerRan c \<notin> set evs"
  by (induction evs) auto

lemma validation_events_no_settlement:
  "list_all isValidationEvent evs \<Longrightarrow> e \<in> set evs \<Longrightarrow> \<not> isSettlementEvent e"
  by (induction evs) (auto elim: isValidationEvent.elims)

text \<open>
  The shape of a wrapper run: validation events; then, if validation passed, the handler
  call on the context validation left; then settlement events, none if the handler threw.
\<close>

lemma wrapper_trace:
  assumes run: "createWrappedHandler ext sess opts cfg h args ex = (r, s)"
      and pre: "validateIfRequired ext sess opts cfg h \<lparr>ctx = ex, trace = []\<rparr> = (a, s1)"
  shows "list_all isValidationEvent (trace s1)"
    and "\<And>e. a = Inl e \<Longrightarrow> trace s = trace s1"
    and "\<And>u. a = Inr u \<Longrightarrow> \<exists>sevs. trace s = trace s1 @ HandlerRan (ctx s1) # sevs \<and>
           list_all isSettlementEvent sevs \<and>
           (\<forall>e. fst (handler h (handlerCall h args) (ctx s1)) = Inl e \<longrightarrow> sevs = []) \<and>
           (paymentOptions h = None \<longrightarrow> sevs = [])"
proof -
  from validateIfRequired_trace[OF pre] show "list_all isValidationEvent (trace s1)" by auto
next
  fix e assume "a = Inl e"
  with run pre show "trace s = trace s1"
    by (auto simp: createWrappedHandler_def wrapped_try_def split: prod.splits)
next
  fix u assume a: "a = Inr u"
  obtain hr ex' where h: "handler h (handlerCall h args) (ctx s1) = (hr, ex')" by force
  let ?s2 = "(emit (HandlerRan (ctx s1)) s1)\<lparr>ctx := ex'\<rparr>"
  have t2: "trace ?s2 = trace s1 @ [HandlerRan (ctx s1)]" by (simp add: emit_def)
  show "\<exists>sevs. trace s = trace s1 @ HandlerRan (ctx s1) # sevs \<and>
           list_all isSettlementEvent sevs \<and>
           (\<forall>e. fst (handler h (handlerCall h args) (ctx s1)) = Inl e \<longrightarrow> sevs = []) \<and>
           (paymentOptions h = None \<longrightarrow> sevs = [])"
  proof (cases "(\<exists>e. hr = Inl e) \<or> paymentOptions h = None")
    case True
    with run pre a h have "trace s = trace s1 @ [HandlerRan (ctx s1)]"
      using t2 by (auto simp: createWrappedHandler_def wrapped_try_def
                        split: prod.splits sum.splits)
    then show ?thesis by simp
  next
    case False
    then obtain result po where res: "hr = Inr result" and po: "paymentOptions h = Some po"
      by (cases hr) auto
    obtain b s3 where st: "settlePayment sess opts ?s2 = (b, s3)" by force
    from settlePayment_trace[OF st] obtain sevs where
      sv: "trace s3 = trace ?s2 @ sevs" "list_all isSettlementEvent sevs" by blast
    from run pre a h res po st have "trace s = trace s3"
      by (auto simp: createWrappedHandler_def wrapped_try_def split: prod.splits sum.splits)
    with sv t2 h res po show ?thesis by auto
  qed
qed

lemma wrapper_handler_context:
  assumes run: "createWrappedHandler ext sess opts cfg h args ex = (r, s)"
      and pre: "validateIfRequired ext sess opts cfg h \<lparr>ctx = ex, trace = []\<rparr> = (a, s1)"
      and ran: "HandlerRan c \<in> set (trace s)"
  shows "c = ctx s1 \<and> (\<exists>u. a = Inr u)"
proof (cases a)
  case (Inl e)
  from wrapper_trace(1,2)[OF run pre] Inl ran show ?thesis
    using validation_events_no_HandlerRan by fastforce
next
  case (Inr u)
  from wrapper_trace(3)[OF run pre Inr] obtain sevs where
    "trace s = trace s1 @ HandlerRan (ctx s1) # sevs" "list_all isSettlementEvent sevs" by blast
  with ran wrapper_trace(1)[OF run pre] Inr show ?thesis
    using validation_events_no_HandlerRan settlement_events_no_HandlerRan by fastforce
qed

section \<open>Evaluating the scenarios\<close>

lemmas ERROR_CODES =
  METHOD_NOT_FOUND_def INVALID_REQUEST_def INVALID_PARAMS_def INTERNAL_ERROR_def
  PAYMENT_REQUIRED_def PAYMENT_INVALID_def INSUFFICIENT_PAYMENT_def REPLAY_DETECTED_def
  PAYMENT_EXECUTION_FAILED_def GUARDRAIL_VIOLATION_def WHITELIST_VIOLATION_def

lemmas scenario_defs =
  demoSession_def demoOptions_def demoConfig_def demoExternals_def demoExtra_def demoArgs_def
  paidTool_def payingClient_def failingClient_def mockValidate_def mockExecute_def
  addNumbers_def boom_def spy_def demoRequirements_def demoProof_def verifiedExtra_def

lemmas server_defs =
  createWrappedHandler_def wrapped_try_def validateIfRequired_def
  assemblePaymentRequirements_def validatePayment_def
  sendPaymentRequiredRequest_def validatePaymentProof_def settlePayment_def
  settlePayment_try_def buildPaymentRequest_def hasSignature_def handlerCall_def emit_def
  successNotification_def failureNotification_def isMethodNotFoundError_def
  transportErrorCode_def

lemmas client_defs =
  handlePaymentRequired_def guardrailsThenSign_def signPayment_def enforce_def
  enforceWhitelist_def cemit_def getPendingRequest_def updatePaymentStatus_def applyStatus_def
  buildPendingKey_def PENDING_PREFIX_def present_def wellFormedChallenge_def knownToLedger_def

lemmas client_scenario_defs =
  demoClientExternals_def demoChallenge_def demoRequirements_def buildPaymentRequest_def
  demoGuardrails_def demoClient_def bareClient_def

section \<open>Claims about the server\<close>

text \<open>
  C1. No settlement unless the handler returns normally: in every run of the wrapper in
  which the handler body was called and threw, the trace holds no call of
  \<open>settlePayment\<close>, no call of the facilitator's \<open>executePayment\<close>, and no
  \<open>x402/payment_result\<close> notification.
\<close>

theorem no_settlement_when_handler_throws:
  assumes run: "createWrappedHandler ext sess opts cfg h args ex = (r, s)"
      and ran: "HandlerRan c \<in> set (trace s)"
      and thr: "fst (handler h (handlerCall h args) c) = Inl err"
  shows "SettleCalled \<notin> set (trace s) \<and>
         (\<forall>p q. FacilitatorExecute p q \<notin> set (trace s)) \<and>
         (\<forall>n. SentNotification n \<notin> set (trace s))"
proof -
  obtain a s1 where pre:
    "validateIfRequired ext sess opts cfg h \<lparr>ctx = ex, trace = []\<rparr> = (a, s1)" by force
  from wrapper_handler_context[OF run pre ran] obtain u where c: "c = ctx s1" and a: "a = Inr u"
    by blast
  from wrapper_trace(3)[OF run pre a] thr c have ts: "trace s = trace s1 @ [HandlerRan (ctx s1)]"
    by auto
  have "\<And>e. e \<in> set (trace s) \<Longrightarrow> \<not> isSettlementEvent e"
    using ts validation_events_no_settlement[OF wrapper_trace(1)[OF run pre]] by auto
  then show ?thesis by fastforce
qed


theorem no_settlement_when_handler_throws_witness:
  "fst (createWrappedHandler demoExternals (demoSession payingClient True) demoOptions
          demoConfig (paidTool boom (1 / 1000)) demoArgs demoExtra)
     = Inl (JsError None ''Handler execution failed: boom'') \<and>
   HandlerRan verifiedExtra \<in> set (trace (snd
       (createWrappedHandler demoExternals (demoSession payingClient True) demoOptions
          demoConfig (paidTool boom (1 / 1000)) demoArgs demoExtra))) \<and>
   fst (handler (paidTool boom (1 / 1000))
          (handlerCall (paidTool boom (1 / 1000)) demoArgs) verifiedExtra)
     = Inl (JsError None ''boom'') \<and>
   SettleCalled \<notin> set (trace (snd
       (createWrappedHandler demoExternals (demoSession payingClient True) demoOptions
          demoConfig (paidTool boom (1 / 1000)) demoArgs demoExtra))) \<and>
   (\<forall>p q. FacilitatorExecute p q \<notin> set (trace (snd
       (createWrappedHandler demoExternals (demoSession payingClient True) demoOptions
          demoConfig (paidTool boom (1 / 1000)) demoArgs demoExtra)))) \<and>
   (\<forall>n. SentNotification n \<notin> set (trace (snd
       (createWrappedHandler demoExternals (demoSession payingClient True) demoOptions
          demoConfig (paidTool boom (1 / 1000)) demoArgs demoExtra))))"
proof -
  let ?run = "createWrappedHandler demoExternals (demoSession payingClient True) demoOptions
          demoConfig (paidTool boom (1 / 1000)) demoArgs demoExtra"
  have run: "?run = (fst ?run, snd ?run)" by simp
  have res: "fst ?run = Inl (JsError None ''Handler execution failed: boom'')"
    by (simp add: scenario_defs server_defs ERROR_CODES Let_def)
  have ran: "HandlerRan verifiedExtra \<in> set (trace (snd ?run))"
    by (simp add: scenario_defs server_defs ERROR_CODES Let_def)
  have thr: "fst (handler (paidTool boom (1 / 1000))
            (handlerCall (paidTool boom (1 / 1000)) demoArgs) verifiedExtra)
       = Inl (JsError None ''boom'')"
    by (simp add: paidTool_def boom_def)
  from no_settlement_when_handler_throws [OF run ran thr] res ran thr
  show ?thesis by blast
qed

text \<open>
  C2, as stated, fails: the context the handler of a protected invocation is called with
  holds both payment fields, and a handler that looks for them finds them.
\<close>

theorem handler_observes_payment_fields_counterexample:
  "fst (createWrappedHandler demoExternals (demoSession payingClient True) demoOptions
          demoConfig (paidTool spy (1 / 1000)) demoArgs demoExtra)
     = Inr ''payment fields visible'' \<and>
   HandlerRan verifiedExtra \<in> set (trace (snd
       (createWrappedHandler demoExternals (demoSession payingClient True) demoOptions
          demoConfig (paidTool spy (1 / 1000)) demoArgs demoExtra))) \<and>
   paymentProof verifiedExtra = Some demoProof \<and>
   paymentRequirements verifiedExtra = Some demoRequirements"
  by (simp add: scenario_defs server_defs ERROR_CODES Let_def)

lemma validatePayment_success_ctx:
  assumes "validatePayment sess opts n reqs s = (Inr u, s')"
  shows "paymentProof (ctx s') \<noteq> None \<and> paymentRequirements (ctx s') = Some reqs"
  using assms
  by (auto simp: validatePayment_def sendPaymentRequiredRequest_def validatePaymentProof_def
                 emit_def Let_def
           split: sum.splits if_splits option.splits prod.splits)

text \<open>
  C2, amended. The wrapper deletes \<open>paymentProof\<close> and \<open>paymentRequirements\<close> from the
  context on every exit path: whatever the outcome, the context it leaves holds neither.
  While the handler of a protected invocation runs, both fields are present on the
  context it is called with.
\<close>

theorem payment_fields_deleted_on_every_exit:
  assumes run: "createWrappedHandler ext sess opts cfg h args ex = (r, s)"
  shows "paymentProof (ctx s) = None \<and> paymentRequirements (ctx s) = None \<and>
         (\<forall>c. HandlerRan c \<in> set (trace s) \<and> paymentOptions h \<noteq> None \<longrightarrow>
              paymentProof c \<noteq> None \<and> paymentRequirements c \<noteq> None)"
proof -
  have del: "paymentProof (ctx s) = None \<and> paymentRequirements (ctx s) = None"
    using run by (auto simp: createWrappedHandler_def split: prod.splits)
  have seen: "paymentProof c \<noteq> None \<and> paymentRequirements c \<noteq> None"
    if ran: "HandlerRan c \<in> set (trace s)" and po: "paymentOptions h \<noteq> None" for c
  proof -
    obtain a s1 where pre:
      "validateIfRequired ext sess opts cfg h \<lparr>ctx = ex, trace = []\<rparr> = (a, s1)" by force
    from wrapper_handler_context[OF run pre ran] obtain u where c: "c = ctx s1" and a: "a = Inr u"
      by blast
    from pre a po obtain reqs where
      "validatePayment sess opts (name h) reqs \<lparr>ctx = ex, trace = []\<rparr> = (Inr u, s1)"
      by (auto simp: validateIfRequired_def split: option.splits sum.splits)
    from validatePayment_success_ctx[OF this] c show ?thesis by simp
  qed
  from del seen show ?thesis by blast
qed

theorem payment_fields_deleted_on_every_exit_witness:
  "HandlerRan verifiedExtra \<in> set (trace (snd
       (createWrappedHandler demoExternals (demoSession payingClient True) demoOptions
          demoConfig (paidTool addNumbers (1 / 1000)) demoArgs demoExtra))) \<and>
   paymentOptions (paidTool addNumbers (1 / 1000)) \<noteq> None \<and>
   paymentProof verifiedExtra \<noteq> None \<and> paymentRequirements verifiedExtra \<noteq> None \<and>
   paymentProof (ctx (snd
       (createWrappedHandler demoExternals (demoSession payingClient True) demoOptions
          demoConfig (paidTool addNumbers (1 / 1000)) demoArgs demoExtra))) = None \<and>
   paymentRequirements (ctx (snd
       (createWrappedHandler demoExternals (demoSession payingClient True) demoOptions
          demoConfig (paidTool addNumbers (1 / 1000)) demoArgs demoExtra))) = None"
proof -
  let ?run = "createWrappedHandler demoExternals (demoSession payingClient True) demoOptions
          demoConfig (paidTool addNumbers (1 / 1000)) demoArgs demoExtra"
  have run: "?run = (fst ?run, snd ?run)" by simp
  have ran: "HandlerRan verifiedExtra \<in> set (trace (snd ?run))"
    by (simp add: scenario_defs server_defs ERROR_CODES Let_def)
  have po: "paymentOptions (paidTool addNumbers (1 / 1000)) \<noteq> None"
    by (simp add: paidTool_def)
  from payment_fields_deleted_on_every_exit [OF run] ran po
  show ?thesis by blast
qed





















text \<open>\<open>js_includes\<close> is the substring test.\<close>

lemma js_includes_iff:
  "js_includes s sub \<longleftrightarrow> (\<exists>p q. s = p @ sub @ q)"
proof (induction s)
  case Nil
  then show ?case by auto
next
  case (Cons c cs)
  show ?case
  proof
    assume "js_includes (c # cs) sub"
    then consider "prefix sub (c # cs)" | "js_includes cs sub" by auto
    then show "\<exists>p q. c # cs = p @ sub @ q"
    proof cases
      case 1
      then obtain q where "c # cs = sub @ q" by (auto simp: prefix_def)
      then have "c # cs = [] @ sub @ q" by simp
      then show ?thesis by blast
    next
      case 2
      with Cons obtain p q where "cs = p @ sub @ q" by blast
      then have "c # cs = (c # p) @ sub @ q" by simp
      then show ?thesis by blast
    qed
  next
    assume "\<exists>p q. c # cs = p @ sub @ q"
    then obtain p q where pq: "c # cs = p @ sub @ q" by blast
    show "js_includes (c # cs) sub"
    proof (cases p)
      case Nil
      with pq have "prefix sub (c # cs)" by (auto simp: prefix_def)
      then show ?thesis by simp
    next
      case (Cons a p')
      with pq have "cs = p' @ sub @ q" by simp
      with Cons.IH show ?thesis by auto
    qed
  qed
qed

text \<open>
  C6. When the \<open>x402/payment_required\<close> sub-request fails with an error whose code is
  -32601, or whose message contains \<open>Method not found\<close> or \<open>method not found\<close>, the
  verify phase raises a \<open>PaymentError\<close> with code \<open>PAYMENT_REQUIRED\<close> (40200) whose
  details are the amount, the asset, the payment address and the network.
\<close>

theorem method_not_found_becomes_payment_required:
  assumes fail: "sendRequest sess (buildPaymentRequest reqs (ex_requestId (ctx s))) = Inl err"
      and mnf: "code_of err = Some (- 32601) \<or>
                (\<exists>m p q. message_of err = Some m \<and>
                   (m = p @ ''Method not found'' @ q \<or> m = p @ ''method not found'' @ q))"
  shows "fst (validatePayment sess opts handlerName reqs s) =
           Inl (PaymentError PAYMENT_REQUIRED
                  (''Payment required: '' @
                     (if description reqs = [] then ''Payment is required for this operation''
                      else description reqs))
                  (PaymentRequiredDetails (maxAmountRequired reqs) (asset reqs)
                     (opt_payTo opts) (opt_network opts))) \<and>
         PAYMENT_REQUIRED = 40200"
proof -
  from mnf have "isMethodNotFoundError err"
  proof
    assume "code_of err = Some (- 32601)"
    then show ?thesis by (simp add: isMethodNotFoundError_def)
  next
    assume "\<exists>m p q. message_of err = Some m \<and>
                   (m = p @ ''Method not found'' @ q \<or> m = p @ ''method not found'' @ q)"
    then obtain m where m: "message_of err = Some m"
      and sub: "(\<exists>p q. m = p @ ''Method not found'' @ q) \<or>
                (\<exists>p q. m = p @ ''method not found'' @ q)"
      by blast
    from sub have "js_includes m ''Method not found'' \<or> js_includes m ''method not found''"
      unfolding js_includes_iff .
    with m show ?thesis by (auto simp add: isMethodNotFoundError_def)
  qed
  with fail show ?thesis
    by (simp add: validatePayment_def sendPaymentRequiredRequest_def Let_def PAYMENT_REQUIRED_def)
qed

theorem method_not_found_becomes_payment_required_witness:
  "sendRequest (demoSession (failingClient (ThrownObject (Some (- 32601)) (Some ''Method not found''))) True)
      (buildPaymentRequest demoRequirements (ex_requestId (ctx \<lparr>ctx = demoExtra, trace = []\<rparr>)))
     = Inl (ThrownObject (Some (- 32601)) (Some ''Method not found'')) \<and>
   code_of (ThrownObject (Some (- 32601)) (Some ''Method not found'')) = Some (- 32601) \<and>
   fst (validatePayment
          (demoSession (failingClient (ThrownObject (Some (- 32601)) (Some ''Method not found''))) True)
          demoOptions ''add-numbers'' demoRequirements \<lparr>ctx = demoExtra, trace = []\<rparr>)
     = Inl (PaymentError 40200 ''Payment required: Pay for calculation''
              (PaymentRequiredDetails ''1000'' ''0xUSDC'' ''0xPAYEE'' ''base-sepolia''))"
proof -
  let ?err = "ThrownObject (Some (- 32601)) (Some ''Method not found'')"
  have fail: "sendRequest (demoSession (failingClient ?err) True)
      (buildPaymentRequest demoRequirements (ex_requestId (ctx \<lparr>ctx = demoExtra, trace = []\<rparr>)))
     = Inl ?err"
    by (simp add: demoSession_def failingClient_def)
  have mnf: "code_of ?err = Some (- 32601) \<or>
                (\<exists>m p q. message_of ?err = Some m \<and>
                   (m = p @ ''Method not found'' @ q \<or> m = p @ ''method not found'' @ q))"
    by simp
  from method_not_found_becomes_payment_required [OF fail mnf, of demoOptions "''add-numbers''"]
  show ?thesis using fail
    by (simp add: demoRequirements_def demoOptions_def PAYMENT_REQUIRED_def)
qed

text \<open>
  C7, as stated, fails: a transport error that carries the guardrail code 40210 makes the
  verify phase raise a \<open>PaymentError\<close> with code 40210, not \<open>PAYMENT_INVALID\<close>.
\<close>

theorem guardrail_code_passes_through_counterexample:
  "fst (validatePayment
          (demoSession (failingClient (JsError (Some 40210)
             ''Payment exceeds max per-call limit: $0.001 > $0.0005'')) True)
          demoOptions ''add-numbers'' demoRequirements \<lparr>ctx = demoExtra, trace = []\<rparr>)
     = Inl (PaymentError 40210 ''Failed to send payment request''
              (CauseDetails (JsError (Some 40210)
                 ''Payment exceeds max per-call limit: $0.001 > $0.0005''))) \<and>
   \<not> isMethodNotFoundError (JsError (Some 40210)
         ''Payment exceeds max per-call limit: $0.001 > $0.0005'') \<and>
   (40210 :: int) \<noteq> PAYMENT_INVALID"
  by (simp add: scenario_defs server_defs ERROR_CODES Let_def)

text \<open>
  C7, amended. For every transport error on the sub-request other than method-not-found,
  the verify phase raises a \<open>PaymentError\<close> whose code is the transport error's own code
  when it has a non-zero one, and \<open>PAYMENT_INVALID\<close> (40201) otherwise.
\<close>

theorem other_transport_error_keeps_its_code:
  assumes fail: "sendRequest sess (buildPaymentRequest reqs (ex_requestId (ctx s))) = Inl err"
      and other: "\<not> isMethodNotFoundError err"
  shows "fst (validatePayment sess opts handlerName reqs s) =
           Inl (PaymentError (transportErrorCode err) ''Failed to send payment request''
                  (CauseDetails err)) \<and>
         (code_of err = None \<or> code_of err = Some 0 \<longrightarrow> transportErrorCode err = PAYMENT_INVALID) \<and>
         (\<forall>c. code_of err = Some c \<and> c \<noteq> 0 \<longrightarrow> transportErrorCode err = c)"
  using fail other
  by (auto simp: validatePayment_def sendPaymentRequiredRequest_def Let_def transportErrorCode_def)

theorem other_transport_error_keeps_its_code_witness:
  "sendRequest (demoSession (failingClient (JsError None ''Request timed out'')) True)
      (buildPaymentRequest demoRequirements (ex_requestId (ctx \<lparr>ctx = demoExtra, trace = []\<rparr>)))
     = Inl (JsError None ''Request timed out'') \<and>
   \<not> isMethodNotFoundError (JsError None ''Request timed out'') \<and>
   code_of (JsError None ''Request timed out'') = None \<and>
   fst (validatePayment (demoSession (failingClient (JsError None ''Request timed out'')) True)
          demoOptions ''add-numbers'' demoRequirements \<lparr>ctx = demoExtra, trace = []\<rparr>)
     = Inl (PaymentError PAYMENT_INVALID ''Failed to send payment request''
              (CauseDetails (JsError None ''Request timed out'')))"
proof -
  let ?err = "JsError None ''Request timed out''"
  have fail: "sendRequest (demoSession (failingClient ?err) True)
      (buildPaymentRequest demoRequirements (ex_requestId (ctx \<lparr>ctx = demoExtra, trace = []\<rparr>)))
     = Inl ?err"
    by (simp add: demoSession_def failingClient_def)
  have other: "\<not> isMethodNotFoundError ?err"
    by (simp add: isMethodNotFoundError_def)
  have c: "code_of ?err = None" by simp
  from other_transport_error_keeps_its_code [OF fail other, of demoOptions "''add-numbers''"]
    fail other c
  show ?thesis by simp
qed


section \<open>Claims about the client\<close>

lemma buildPendingKey_neq: "buildPendingKey rid \<noteq> rid"
proof
  assume "buildPendingKey rid = rid"
  then have "length (buildPendingKey rid) = length rid" by simp
  then show False by (simp add: buildPendingKey_def PENDING_PREFIX_def)
qed

lemma demoLedger_eq: "demoLedger = [''pending:7'' \<mapsto> demoRecord]"
  by (simp add: demoLedger_def storePendingRequest_def demoPending_def demoRecord_def
                buildPendingKey_def PENDING_PREFIX_def)

text \<open>
  C3, as stated, fails: after \<open>markRequestCompleted\<close>, and after
  \<open>updatePaymentStatus\<close> with status \<open>failed\<close>, the record is under key \<open>7\<close> and the
  entry under \<open>pending:7\<close> is still in the store.
\<close>

theorem pending_entry_remains_counterexample:
  "markRequestCompleted ''7'' None 200 demoLedger ''7''
     = Some (demoRecord\<lparr>requestStatus := Completed, requestCompletedAt := Some 200\<rparr>) \<and>
   markRequestCompleted ''7'' None 200 demoLedger ''pending:7'' = Some demoRecord \<and>
   updatePaymentStatus ''7'' Failed None 300 demoLedger ''7''
     = Some (demoRecord\<lparr>paymentStatus := Failed, paymentCompletedAt := Some 300\<rparr>) \<and>
   updatePaymentStatus ''7'' Failed None 300 demoLedger ''pending:7'' = Some demoRecord"
  by (simp add: demoLedger_eq markRequestCompleted_def updatePaymentStatus_def applyStatus_def
                buildPendingKey_def PENDING_PREFIX_def)

text \<open>
  C3, amended. For every request id with a record under \<open>pending:<id>\<close>,
  \<open>markRequestCompleted\<close> and \<open>updatePaymentStatus\<close> with a status other than
  \<open>pending\<close> write the updated record under key \<open><id>\<close>, and the entry under
  \<open>pending:<id>\<close> stays in the store as it was.
\<close>

theorem terminal_update_writes_id_key_and_keeps_pending:
  assumes pend: "getPendingRequest rid storage = Some rec"
  shows "markRequestCompleted rid completedAt now storage rid
           = Some (rec\<lparr>requestStatus := Completed,
                        requestCompletedAt := Some (case completedAt of None \<Rightarrow> now | Some d \<Rightarrow> d)\<rparr>) \<and>
         getPendingRequest rid (markRequestCompleted rid completedAt now storage) = Some rec \<and>
         (status \<noteq> Pending \<longrightarrow>
            updatePaymentStatus rid status details now storage rid
              = Some (applyStatus status details now rec) \<and>
            paymentStatus (applyStatus status details now rec) = status \<and>
            getPendingRequest rid (updatePaymentStatus rid status details now storage) = Some rec)"
  using pend buildPendingKey_neq[of rid]
  by (auto simp: getPendingRequest_def markRequestCompleted_def updatePaymentStatus_def
                 applyStatus_def Let_def split: option.splits)

theorem terminal_update_writes_id_key_and_keeps_pending_witness:
  "getPendingRequest ''7'' demoLedger = Some demoRecord \<and>
   Completed \<noteq> Pending \<and>
   markRequestCompleted ''7'' (Some 150) 200 demoLedger ''7''
     = Some (demoRecord\<lparr>requestStatus := Completed, requestCompletedAt := Some 150\<rparr>) \<and>
   getPendingRequest ''7'' (markRequestCompleted ''7'' (Some 150) 200 demoLedger) = Some demoRecord \<and>
   updatePaymentStatus ''7'' Completed None 200 demoLedger ''7''
     = Some (demoRecord\<lparr>paymentStatus := Completed, paymentCompletedAt := Some 200\<rparr>) \<and>
   getPendingRequest ''7'' (updatePaymentStatus ''7'' Completed None 200 demoLedger) = Some demoRecord"
proof -
  have pend: "getPendingRequest ''7'' demoLedger = Some demoRecord"
    by (simp add: demoLedger_eq getPendingRequest_def buildPendingKey_def PENDING_PREFIX_def)
  have st: "Completed \<noteq> Pending" by simp
  from terminal_update_writes_id_key_and_keeps_pending
         [OF pend, of "Some 150" 200 Completed None] pend st
  show ?thesis by (simp add: applyStatus_def)
qed


lemma signPayment_frame:
  "signPayment ext request st = (r, st') \<Longrightarrow>
     auditStorage st' = auditStorage st \<and>
     filter isLedgerEvent (ctrace st') = filter isLedgerEvent (ctrace st)"
  by (auto simp: signPayment_def cemit_def Let_def split: sum.splits)

lemma guardrailsThenSign_frame:
  "guardrailsThenSign ext guardrails request st = (r, st') \<Longrightarrow>
     auditStorage st' = auditStorage st \<and>
     filter isLedgerEvent (ctrace st') = filter isLedgerEvent (ctrace st)"
  by (auto simp: guardrailsThenSign_def cemit_def Let_def
           split: sum.splits option.splits dest!: signPayment_frame)

lemma guardrailsThenSign_violation:
  fixes ext :: ClientExternals and request :: PaymentRequiredRequest and pa :: PricedAsset
  assumes "maxPaymentPerCall g = Some X"
      and "priceOf ext (maxAmountRequired (rq_params request)) (network (rq_params request)) = Inr pa"
      and "formatUsd ext (maxAmountRequired (rq_params request)) (pa_decimals pa) = Inr a"
      and "X < a"
  shows "guardrailsThenSign ext (Some g) request st =
           (Inl (PaymentError GUARDRAIL_VIOLATION
              (''Payment exceeds max per-call limit: $'' @ printNumber ext a @ '' > $'' @
                 printNumber ext X)
              (GuardrailDetails a X)),
            cemit (GuardrailsEnforce a (payTo (rq_params request))) st)"
  using assms by (simp add: guardrailsThenSign_def enforce_def Let_def)

text \<open>
  C8. With \<open>maxPaymentPerCall\<close> set to \<open>X\<close>: an amount equal to \<open>X\<close> passes the
  per-call cap (only the allowlist is left to decide), and any amount above \<open>X\<close> raises
  \<open>GUARDRAIL_VIOLATION\<close> (40210) with the amount and the cap as details. In the
  responder, a challenge whose converted amount is above \<open>X\<close> obtains no account and
  signs nothing, and when it passes the basic checks and the ledger lookup the error
  returned is that violation.
\<close>

theorem per_call_cap_boundary:
  assumes cap: "maxPaymentPerCall g = Some X"
  shows "enforce pr g X recipient = enforceWhitelist g recipient \<and>
         (\<forall>m d. enforce pr g X recipient \<noteq> Some (PaymentError GUARDRAIL_VIOLATION m d)) \<and>
         (\<forall>a. X < a \<longrightarrow>
            enforce pr g a recipient =
              Some (PaymentError GUARDRAIL_VIOLATION
                (''Payment exceeds max per-call limit: $'' @ pr a @ '' > $'' @ pr X)
                (GuardrailDetails a X))) \<and>
         (\<forall>ext now request st pa a.
            priceOf ext (maxAmountRequired (rq_params request)) (network (rq_params request))
              = Inr pa \<and>
            formatUsd ext (maxAmountRequired (rq_params request)) (pa_decimals pa) = Inr a \<and>
            X < a \<longrightarrow>
              filter isSigningEvent
                  (ctrace (snd (handlePaymentRequired ext (Some g) now request st)))
                = filter isSigningEvent (ctrace st) \<and>
              (wellFormedChallenge (rq_params request) \<and> knownToLedger st (rq_params request) \<longrightarrow>
                 fst (handlePaymentRequired ext (Some g) now request st) =
                   Inl (PaymentError GUARDRAIL_VIOLATION
                     (''Payment exceeds max per-call limit: $'' @ printNumber ext a @ '' > $'' @
                        printNumber ext X)
                     (GuardrailDetails a X))))"
proof (intro conjI allI impI)
  show "enforce pr g X recipient = enforceWhitelist g recipient"
    using cap by (simp add: enforce_def)
next
  fix m d
  show "enforce pr g X recipient \<noteq> Some (PaymentError GUARDRAIL_VIOLATION m d)"
    using cap by (auto simp: enforce_def enforceWhitelist_def ERROR_CODES split: option.splits)
next
  fix a :: rat assume "X < a"
  then show "enforce pr g a recipient =
              Some (PaymentError GUARDRAIL_VIOLATION
                (''Payment exceeds max per-call limit: $'' @ pr a @ '' > $'' @ pr X)
                (GuardrailDetails a X))"
    using cap by (simp add: enforce_def)
next
  fix ext :: ClientExternals and now :: nat and request :: PaymentRequiredRequest
    and st :: ClientState and pa :: PricedAsset and a :: rat
  assume h: "priceOf ext (maxAmountRequired (rq_params request)) (network (rq_params request))
              = Inr pa \<and>
            formatUsd ext (maxAmountRequired (rq_params request)) (pa_decimals pa) = Inr a \<and>
            X < a"
  note v = guardrailsThenSign_violation[OF cap, of ext request pa a]
  show "filter isSigningEvent
                  (ctrace (snd (handlePaymentRequired ext (Some g) now request st)))
                = filter isSigningEvent (ctrace st)"
    using h v by (auto simp: handlePaymentRequired_def Let_def cemit_def split: option.splits)
next
  fix ext :: ClientExternals and now :: nat and request :: PaymentRequiredRequest
    and st :: ClientState and pa :: PricedAsset and a :: rat
  assume h: "priceOf ext (maxAmountRequired (rq_params request)) (network (rq_params request))
              = Inr pa \<and>
            formatUsd ext (maxAmountRequired (rq_params request)) (pa_decimals pa) = Inr a \<and>
            X < a"
    and wf: "wellFormedChallenge (rq_params request) \<and> knownToLedger st (rq_params request)"
  note v = guardrailsThenSign_violation[OF cap, of ext request pa a]
  show "fst (handlePaymentRequired ext (Some g) now request st) =
                   Inl (PaymentError GUARDRAIL_VIOLATION
                     (''Payment exceeds max per-call limit: $'' @ printNumber ext a @ '' > $'' @
                        printNumber ext X)
                     (GuardrailDetails a X))"
    using h v wf
    by (auto simp: handlePaymentRequired_def Let_def wellFormedChallenge_def knownToLedger_def
                   present_def split: option.splits)
qed


theorem per_call_cap_boundary_witness:
  "maxPaymentPerCall demoGuardrails = Some (1 / 1000) \<and>
   priceOf demoClientExternals (maxAmountRequired (rq_params (demoChallenge ''20000'')))
       (network (rq_params (demoChallenge ''20000'')))
     = Inr \<lparr> pa_maxAmountRequired = ''20000'', pa_address = ''0xUSDC'', pa_decimals = 6,
             pa_eip712 = None \<rparr> \<and>
   formatUsd demoClientExternals (maxAmountRequired (rq_params (demoChallenge ''20000''))) 6
     = Inr (1 / 50) \<and>
   (1 / 1000 :: rat) < 1 / 50 \<and>
   wellFormedChallenge (rq_params (demoChallenge ''20000'')) \<and>
   knownToLedger demoClient (rq_params (demoChallenge ''20000'')) \<and>
   fst (handlePaymentRequired demoClientExternals (Some demoGuardrails) 150
          (demoChallenge ''20000'') demoClient)
     = Inl (PaymentError 40210 ''Payment exceeds max per-call limit: $0.001 > $0.001''
              (GuardrailDetails (1 / 50) (1 / 1000))) \<and>
   filter isSigningEvent (ctrace (snd (handlePaymentRequired demoClientExternals
          (Some demoGuardrails) 150 (demoChallenge ''20000'') demoClient))) = [] \<and>
   enforce (printNumber demoClientExternals) demoGuardrails (1 / 1000) ''0xPAYEE'' = None \<and>
   fst (handlePaymentRequired demoClientExternals (Some demoGuardrails) 150
          (demoChallenge ''1000'') demoClient)
     = Inr \<lparr> rs_id = ''7'', rs_payment = Some \<lparr> pp_x402Version = 1, pp_scheme = ''exact'',
             pp_network = ''base-sepolia'',
             pp_payload = Some \<lparr> signature = Some ''0xsigned'',
                                  authorization = ''0xACCOUNT'' \<rparr> \<rparr> \<rparr>"
proof -
  let ?pa = "\<lparr> pa_maxAmountRequired = ''20000'', pa_address = ''0xUSDC'', pa_decimals = 6,
             pa_eip712 = None \<rparr>"
  have cap: "maxPaymentPerCall demoGuardrails = Some (1 / 1000)"
    by (simp add: demoGuardrails_def)
  have price: "priceOf demoClientExternals (maxAmountRequired (rq_params (demoChallenge ''20000'')))
       (network (rq_params (demoChallenge ''20000''))) = Inr ?pa"
    by (simp add: client_scenario_defs)
  have usd: "formatUsd demoClientExternals (maxAmountRequired (rq_params (demoChallenge ''20000'')))
       (pa_decimals ?pa) = Inr (1 / 50)"
    by (simp add: client_scenario_defs)
  have lt: "(1 / 1000 :: rat) < 1 / 50" by simp
  have wf: "wellFormedChallenge (rq_params (demoChallenge ''20000''))"
    by (simp add: client_scenario_defs wellFormedChallenge_def present_def)
  have known: "knownToLedger demoClient (rq_params (demoChallenge ''20000''))"
    by (simp add: client_scenario_defs knownToLedger_def getPendingRequest_def demoLedger_eq
                  buildPendingKey_def PENDING_PREFIX_def)
  have pn: "printNumber demoClientExternals = (\<lambda>a. ''0.001'')"
    by (simp add: demoClientExternals_def)
  have at_cap: "enforceWhitelist demoGuardrails ''0xPAYEE'' = None"
    by (simp add: enforceWhitelist_def demoGuardrails_def)
  have pays: "fst (handlePaymentRequired demoClientExternals (Some demoGuardrails) 150
          (demoChallenge ''1000'') demoClient)
     = Inr \<lparr> rs_id = ''7'', rs_payment = Some \<lparr> pp_x402Version = 1, pp_scheme = ''exact'',
             pp_network = ''base-sepolia'',
             pp_payload = Some \<lparr> signature = Some ''0xsigned'',
                                  authorization = ''0xACCOUNT'' \<rparr> \<rparr> \<rparr>"
    by (simp add: client_scenario_defs client_defs demoLedger_eq Let_def)
  note inst = per_call_cap_boundary [OF cap, of "printNumber demoClientExternals" "''0xPAYEE''"]
  from inst have e: "enforce (printNumber demoClientExternals) demoGuardrails (1 / 1000) ''0xPAYEE''
      = enforceWhitelist demoGuardrails ''0xPAYEE''" by blast
  from inst price usd lt
  have sig: "filter isSigningEvent (ctrace (snd (handlePaymentRequired demoClientExternals
          (Some demoGuardrails) 150 (demoChallenge ''20000'') demoClient)))
        = filter isSigningEvent (ctrace demoClient)"
    by blast
  from inst price usd lt wf known
  have res: "fst (handlePaymentRequired demoClientExternals (Some demoGuardrails) 150
          (demoChallenge ''20000'') demoClient)
     = Inl (PaymentError GUARDRAIL_VIOLATION
              (''Payment exceeds max per-call limit: $'' @ printNumber demoClientExternals (1 / 50)
                 @ '' > $'' @ printNumber demoClientExternals (1 / 1000))
              (GuardrailDetails (1 / 50) (1 / 1000)))"
    by blast
  from cap price usd lt wf known e at_cap sig res pays show ?thesis
    by (simp add: pn GUARDRAIL_VIOLATION_def demoClient_def)
qed

text \<open>
  C10. A client built without \<open>auditStorage\<close> does no ledger lookup. For every
  challenge that passes the basic checks, the client still has no ledger afterwards and
  the trace gains no ledger call; the unknown-payment error is returned only if a
  collaborator (the amount conversion, the wallet, the signer) throws that very value;
  and the outcome is that of guardrails, when configured, followed by signing: a pricer
  or conversion failure is returned as it is, an amount above the cap gives
  \<open>GUARDRAIL_VIOLATION\<close>, a recipient outside the allowlist gives
  \<open>WHITELIST_VIOLATION\<close>, and otherwise the wallet's account is obtained, the payload is
  signed, and the response carries the challenge's id and the signed payload (or the
  error the wallet or the signer threw).
\<close>

theorem no_ledger_lookup_without_audit_storage:
  fixes ext :: ClientExternals and request :: PaymentRequiredRequest and st :: ClientState
  assumes none: "auditStorage st = None"
      and wf: "wellFormedChallenge (rq_params request)"
  shows "auditStorage (snd (handlePaymentRequired ext guardrails now request st)) = None \<and>
         filter isLedgerEvent (ctrace (snd (handlePaymentRequired ext guardrails now request st)))
           = filter isLedgerEvent (ctrace st) \<and>
         (\<forall>m d. fst (handlePaymentRequired ext guardrails now request st)
                  = Inl (PaymentError PAYMENT_INVALID
                           (''Payment request for unknown payment: '' @ m) d) \<longrightarrow>
            (\<exists>k. formatUsd ext (maxAmountRequired (rq_params request)) k
                   = Inl (PaymentError PAYMENT_INVALID
                            (''Payment request for unknown payment: '' @ m) d)) \<or>
            createAccount ext
              = Inl (PaymentError PAYMENT_INVALID
                       (''Payment request for unknown payment: '' @ m) d) \<or>
            (\<exists>account. createPayment ext account 1 (rq_params request)
               = Inl (PaymentError PAYMENT_INVALID
                        (''Payment request for unknown payment: '' @ m) d))) \<and>
         (\<forall>g err. guardrails = Some g \<and>
            priceOf ext (maxAmountRequired (rq_params request)) (network (rq_params request))
              = Inl err \<longrightarrow>
            handlePaymentRequired ext guardrails now request st
              = (Inl (PaymentError PAYMENT_INVALID
                        (''Failed to process payment amount: '' @ err) NoDetails), st)) \<and>
         (\<forall>g pa e. guardrails = Some g \<and>
            priceOf ext (maxAmountRequired (rq_params request)) (network (rq_params request))
              = Inr pa \<and>
            formatUsd ext (maxAmountRequired (rq_params request)) (pa_decimals pa) = Inl e \<longrightarrow>
            handlePaymentRequired ext guardrails now request st = (Inl e, st)) \<and>
         (\<forall>g pa a. guardrails = Some g \<and>
            priceOf ext (maxAmountRequired (rq_params request)) (network (rq_params request))
              = Inr pa \<and>
            formatUsd ext (maxAmountRequired (rq_params request)) (pa_decimals pa) = Inr a \<longrightarrow>
            (\<forall>m. maxPaymentPerCall g = Some m \<and> m < a \<longrightarrow>
               handlePaymentRequired ext guardrails now request st
                 = (Inl (PaymentError GUARDRAIL_VIOLATION
                           (''Payment exceeds max per-call limit: $'' @ printNumber ext a @
                              '' > $'' @ printNumber ext m)
                           (GuardrailDetails a m)),
                    st\<lparr>ctrace := ctrace st @
                           [GuardrailsEnforce a (payTo (rq_params request))]\<rparr>)) \<and>
            (\<forall>wl. (\<forall>m. maxPaymentPerCall g = Some m \<longrightarrow> a \<le> m) \<and>
               whitelistedServers g = Some wl \<and> payTo (rq_params request) \<notin> set wl \<longrightarrow>
               handlePaymentRequired ext guardrails now request st
                 = (Inl (PaymentError WHITELIST_VIOLATION
                           (''Payment recipient '' @ payTo (rq_params request) @
                              '' is not whitelisted'')
                           (WhitelistDetails (payTo (rq_params request)) wl)),
                    st\<lparr>ctrace := ctrace st @
                           [GuardrailsEnforce a (payTo (rq_params request))]\<rparr>))) \<and>
         (\<forall>checked.
            (guardrails = None \<and> checked = []) \<or>
            (\<exists>g pa a. guardrails = Some g \<and>
               priceOf ext (maxAmountRequired (rq_params request)) (network (rq_params request))
                 = Inr pa \<and>
               formatUsd ext (maxAmountRequired (rq_params request)) (pa_decimals pa) = Inr a \<and>
               (\<forall>m. maxPaymentPerCall g = Some m \<longrightarrow> a \<le> m) \<and>
               (\<forall>wl. whitelistedServers g = Some wl \<longrightarrow> payTo (rq_params request) \<in> set wl) \<and>
               checked = [GuardrailsEnforce a (payTo (rq_params request))]) \<longrightarrow>
            (\<forall>e. createAccount ext = Inl e \<longrightarrow>
               handlePaymentRequired ext guardrails now request st
                 = (Inl e, st\<lparr>ctrace := ctrace st @ checked @ [WalletCreateAccount]\<rparr>)) \<and>
            (\<forall>account e. createAccount ext = Inr account \<and>
               createPayment ext account 1 (rq_params request) = Inl e \<longrightarrow>
               handlePaymentRequired ext guardrails now request st
                 = (Inl e, st\<lparr>ctrace := ctrace st @ checked @
                                  [WalletCreateAccount, SignPayment account]\<rparr>)) \<and>
            (\<forall>account payload. createAccount ext = Inr account \<and>
               createPayment ext account 1 (rq_params request) = Inr payload \<longrightarrow>
               handlePaymentRequired ext guardrails now request st
                 = (Inr \<lparr> rs_id = rq_id request, rs_payment = Some payload \<rparr>,
                    st\<lparr>ctrace := ctrace st @ checked @
                           [WalletCreateAccount, SignPayment account]\<rparr>)))"
proof -
  let ?R = "handlePaymentRequired ext guardrails now request st"
  let ?P = "rq_params request"
  have ver: "x402Version ?P = 1" using wf by (simp add: wellFormedChallenge_def)
  have eq: "?R = guardrailsThenSign ext guardrails request st"
    using none wf
    by (auto simp: handlePaymentRequired_def wellFormedChallenge_def present_def Let_def
             split: option.splits)
  obtain r st' where g: "guardrailsThenSign ext guardrails request st = (r, st')" by force
  from guardrailsThenSign_frame[OF g] none eq g
  have c1: "auditStorage (snd ?R) = None"
    and c2: "filter isLedgerEvent (ctrace (snd ?R)) = filter isLedgerEvent (ctrace st)"
    by simp_all
  have c3: "\<forall>m d. fst ?R = Inl (PaymentError PAYMENT_INVALID
                           (''Payment request for unknown payment: '' @ m) d) \<longrightarrow>
            (\<exists>k. formatUsd ext (maxAmountRequired ?P) k
                   = Inl (PaymentError PAYMENT_INVALID
                            (''Payment request for unknown payment: '' @ m) d)) \<or>
            createAccount ext
              = Inl (PaymentError PAYMENT_INVALID
                       (''Payment request for unknown payment: '' @ m) d) \<or>
            (\<exists>account. createPayment ext account 1 ?P
               = Inl (PaymentError PAYMENT_INVALID
                        (''Payment request for unknown payment: '' @ m) d))"
    unfolding eq using ver
    by (auto simp: guardrailsThenSign_def signPayment_def enforce_def enforceWhitelist_def
                   Let_def ERROR_CODES
             split: option.splits sum.splits if_splits)
  have c4: "\<forall>g err. guardrails = Some g \<and>
            priceOf ext (maxAmountRequired ?P) (network ?P) = Inl err \<longrightarrow>
            ?R = (Inl (PaymentError PAYMENT_INVALID
                        (''Failed to process payment amount: '' @ err) NoDetails), st)"
    unfolding eq by (auto simp: guardrailsThenSign_def Let_def)
  have c5: "\<forall>g pa e. guardrails = Some g \<and>
            priceOf ext (maxAmountRequired ?P) (network ?P) = Inr pa \<and>
            formatUsd ext (maxAmountRequired ?P) (pa_decimals pa) = Inl e \<longrightarrow>
            ?R = (Inl e, st)"
    unfolding eq by (auto simp: guardrailsThenSign_def Let_def)
  have c6: "\<forall>g pa a. guardrails = Some g \<and>
            priceOf ext (maxAmountRequired ?P) (network ?P) = Inr pa \<and>
            formatUsd ext (maxAmountRequired ?P) (pa_decimals pa) = Inr a \<longrightarrow>
            (\<forall>m. maxPaymentPerCall g = Some m \<and> m < a \<longrightarrow>
               ?R = (Inl (PaymentError GUARDRAIL_VIOLATION
                           (''Payment exceeds max per-call limit: $'' @ printNumber ext a @
                              '' > $'' @ printNumber ext m)
                           (GuardrailDetails a m)),
                    st\<lparr>ctrace := ctrace st @ [GuardrailsEnforce a (payTo ?P)]\<rparr>)) \<and>
            (\<forall>wl. (\<forall>m. maxPaymentPerCall g = Some m \<longrightarrow> a \<le> m) \<and>
               whitelistedServers g = Some wl \<and> payTo ?P \<notin> set wl \<longrightarrow>
               ?R = (Inl (PaymentError WHITELIST_VIOLATION
                           (''Payment recipient '' @ payTo ?P @ '' is not whitelisted'')
                           (WhitelistDetails (payTo ?P) wl)),
                    st\<lparr>ctrace := ctrace st @ [GuardrailsEnforce a (payTo ?P)]\<rparr>))"
    unfolding eq
    by (auto simp: guardrailsThenSign_def enforce_def enforceWhitelist_def cemit_def Let_def
             split: option.splits)
  have sign: "signPayment ext request (st\<lparr>ctrace := ctrace st @ checked\<rparr>) =
      (case createAccount ext of
         Inl e \<Rightarrow> (Inl e, st\<lparr>ctrace := ctrace st @ checked @ [WalletCreateAccount]\<rparr>)
       | Inr account \<Rightarrow>
           (case createPayment ext account 1 ?P of
              Inl e \<Rightarrow> (Inl e, st\<lparr>ctrace := ctrace st @ checked @
                                  [WalletCreateAccount, SignPayment account]\<rparr>)
            | Inr payload \<Rightarrow>
                (Inr \<lparr> rs_id = rq_id request, rs_payment = Some payload \<rparr>,
                 st\<lparr>ctrace := ctrace st @ checked @
                           [WalletCreateAccount, SignPayment account]\<rparr>)))" for checked
    using ver by (simp add: signPayment_def cemit_def Let_def split: sum.splits)
  have reach: "?R = signPayment ext request (st\<lparr>ctrace := ctrace st @ checked\<rparr>)"
    if "(guardrails = None \<and> checked = []) \<or>
            (\<exists>g pa a. guardrails = Some g \<and>
               priceOf ext (maxAmountRequired ?P) (network ?P) = Inr pa \<and>
               formatUsd ext (maxAmountRequired ?P) (pa_decimals pa) = Inr a \<and>
               (\<forall>m. maxPaymentPerCall g = Some m \<longrightarrow> a \<le> m) \<and>
               (\<forall>wl. whitelistedServers g = Some wl \<longrightarrow> payTo ?P \<in> set wl) \<and>
               checked = [GuardrailsEnforce a (payTo ?P)])" for checked
    using that unfolding eq
    by (auto simp: guardrailsThenSign_def enforce_def enforceWhitelist_def cemit_def Let_def
             split: option.splits)
  have c7: "\<forall>checked.
            (guardrails = None \<and> checked = []) \<or>
            (\<exists>g pa a. guardrails = Some g \<and>
               priceOf ext (maxAmountRequired ?P) (network ?P) = Inr pa \<and>
               formatUsd ext (maxAmountRequired ?P) (pa_decimals pa) = Inr a \<and>
               (\<forall>m. maxPaymentPerCall g = Some m \<longrightarrow> a \<le> m) \<and>
               (\<forall>wl. whitelistedServers g = Some wl \<longrightarrow> payTo ?P \<in> set wl) \<and>
               checked = [GuardrailsEnforce a (payTo ?P)]) \<longrightarrow>
            (\<forall>e. createAccount ext = Inl e \<longrightarrow>
               ?R = (Inl e, st\<lparr>ctrace := ctrace st @ checked @ [WalletCreateAccount]\<rparr>)) \<and>
            (\<forall>account e. createAccount ext = Inr account \<and>
               createPayment ext account 1 ?P = Inl e \<longrightarrow>
               ?R = (Inl e, st\<lparr>ctrace := ctrace st @ checked @
                                  [WalletCreateAccount, SignPayment account]\<rparr>)) \<and>
            (\<forall>account payload. createAccount ext = Inr account \<and>
               createPayment ext account 1 ?P = Inr payload \<longrightarrow>
               ?R = (Inr \<lparr> rs_id = rq_id request, rs_payment = Some payload \<rparr>,
                    st\<lparr>ctrace := ctrace st @ checked @
                           [WalletCreateAccount, SignPayment account]\<rparr>))"
  proof (intro allI impI)
    fix checked
    assume a: "(guardrails = None \<and> checked = []) \<or>
            (\<exists>g pa a. guardrails = Some g \<and>
               priceOf ext (maxAmountRequired ?P) (network ?P) = Inr pa \<and>
               formatUsd ext (maxAmountRequired ?P) (pa_decimals pa) = Inr a \<and>
               (\<forall>m. maxPaymentPerCall g = Some m \<longrightarrow> a \<le> m) \<and>
               (\<forall>wl. whitelistedServers g = Some wl \<longrightarrow> payTo ?P \<in> set wl) \<and>
               checked = [GuardrailsEnforce a (payTo ?P)])"
    have "?R = signPayment ext request (st\<lparr>ctrace := ctrace st @ checked\<rparr>)"
      using reach[OF a] .
    then show "(\<forall>e. createAccount ext = Inl e \<longrightarrow>
               ?R = (Inl e, st\<lparr>ctrace := ctrace st @ checked @ [WalletCreateAccount]\<rparr>)) \<and>
            (\<forall>account e. createAccount ext = Inr account \<and>
               createPayment ext account 1 ?P = Inl e \<longrightarrow>
               ?R = (Inl e, st\<lparr>ctrace := ctrace st @ checked @
                                  [WalletCreateAccount, SignPayment account]\<rparr>)) \<and>
            (\<forall>account payload. createAccount ext = Inr account \<and>
               createPayment ext account 1 ?P = Inr payload \<longrightarrow>
               ?R = (Inr \<lparr> rs_id = rq_id request, rs_payment = Some payload \<rparr>,
                    st\<lparr>ctrace := ctrace st @ checked @
                           [WalletCreateAccount, SignPayment account]\<rparr>))"
      by (simp add: sign)
  qed
  from c1 c2 c3 c4 c5 c6 c7 show ?thesis by blast
qed


theorem no_ledger_lookup_without_audit_storage_witness:
  "auditStorage bareClient = None \<and>
   wellFormedChallenge (rq_params (demoChallenge ''1000'')) \<and>
   priceOf demoClientExternals (maxAmountRequired (rq_params (demoChallenge ''1000'')))
       (network (rq_params (demoChallenge ''1000'')))
     = Inr \<lparr> pa_maxAmountRequired = ''1000'', pa_address = ''0xUSDC'', pa_decimals = 6,
             pa_eip712 = None \<rparr> \<and>
   formatUsd demoClientExternals (maxAmountRequired (rq_params (demoChallenge ''1000''))) 6
     = Inr (1 / 1000) \<and>
   createAccount demoClientExternals = Inr ''0xACCOUNT'' \<and>
   payTo (rq_params (demoChallenge ''1000'')) = ''0xPAYEE'' \<and>
   handlePaymentRequired demoClientExternals (Some (demoAllowlist [''0xPAYEE''])) 150
       (demoChallenge ''1000'') bareClient
     = (Inr \<lparr> rs_id = ''7'', rs_payment = Some \<lparr> pp_x402Version = 1, pp_scheme = ''exact'',
             pp_network = ''base-sepolia'',
             pp_payload = Some \<lparr> signature = Some ''0xsigned'',
                                  authorization = ''0xACCOUNT'' \<rparr> \<rparr> \<rparr>,
        \<lparr> auditStorage = None,
          ctrace = [GuardrailsEnforce (1 / 1000) ''0xPAYEE'', WalletCreateAccount,
                    SignPayment ''0xACCOUNT''] \<rparr>) \<and>
   handlePaymentRequired demoClientExternals (Some (demoAllowlist [''0xOTHER''])) 150
       (demoChallenge ''1000'') bareClient
     = (Inl (PaymentError WHITELIST_VIOLATION ''Payment recipient 0xPAYEE is not whitelisted''
               (WhitelistDetails ''0xPAYEE'' [''0xOTHER''])),
        \<lparr> auditStorage = None, ctrace = [GuardrailsEnforce (1 / 1000) ''0xPAYEE''] \<rparr>)"
proof -
  let ?rq = "demoChallenge ''1000''"
  let ?pa = "\<lparr> pa_maxAmountRequired = ''1000'', pa_address = ''0xUSDC'', pa_decimals = 6,
             pa_eip712 = None \<rparr>"
  let ?payload = "\<lparr> pp_x402Version = 1, pp_scheme = ''exact'', pp_network = ''base-sepolia'',
             pp_payload = Some \<lparr> signature = Some ''0xsigned'',
                                  authorization = ''0xACCOUNT'' \<rparr> \<rparr>"
  have none: "auditStorage bareClient = None" by (simp add: bareClient_def)
  have wf: "wellFormedChallenge (rq_params ?rq)"
    by (simp add: client_scenario_defs wellFormedChallenge_def present_def)
  have price: "priceOf demoClientExternals (maxAmountRequired (rq_params ?rq))
       (network (rq_params ?rq)) = Inr ?pa"
    by (simp add: client_scenario_defs)
  have usd: "formatUsd demoClientExternals (maxAmountRequired (rq_params ?rq)) (pa_decimals ?pa)
       = Inr (1 / 1000)"
    by (simp add: client_scenario_defs)
  have acc: "createAccount demoClientExternals = Inr ''0xACCOUNT''"
    by (simp add: demoClientExternals_def)
  have pay: "createPayment demoClientExternals ''0xACCOUNT'' 1 (rq_params ?rq) = Inr ?payload"
    by (simp add: client_scenario_defs)
  have to: "payTo (rq_params ?rq) = ''0xPAYEE''" by (simp add: client_scenario_defs)
  have rid: "rq_id ?rq = ''7''" by (simp add: client_scenario_defs)
  have cap: "\<forall>m. maxPaymentPerCall (demoAllowlist ws) = Some m \<longrightarrow> (1 / 1000 :: rat) \<le> m" for ws
    by (simp add: demoAllowlist_def)
  have wl: "whitelistedServers (demoAllowlist ws) = Some ws" for ws
    by (simp add: demoAllowlist_def)
  have allowed: "\<exists>g pa a. Some (demoAllowlist [''0xPAYEE'']) = Some g \<and>
               priceOf demoClientExternals (maxAmountRequired (rq_params ?rq))
                 (network (rq_params ?rq)) = Inr pa \<and>
               formatUsd demoClientExternals (maxAmountRequired (rq_params ?rq))
                 (pa_decimals pa) = Inr a \<and>
               (\<forall>m. maxPaymentPerCall g = Some m \<longrightarrow> a \<le> m) \<and>
               (\<forall>wl. whitelistedServers g = Some wl \<longrightarrow> payTo (rq_params ?rq) \<in> set wl) \<and>
               [GuardrailsEnforce (1 / 1000) ''0xPAYEE'']
                 = [GuardrailsEnforce a (payTo (rq_params ?rq))]"
    using price usd cap[of "[''0xPAYEE'']"] wl[of "[''0xPAYEE'']"] to
    by (intro exI[of _ "demoAllowlist [''0xPAYEE'']"] exI[of _ ?pa] exI[of _ "1 / 1000"]) simp
  from no_ledger_lookup_without_audit_storage
         [OF none wf, of demoClientExternals "Some (demoAllowlist [''0xPAYEE''])" 150]
       allowed acc pay
  have signed: "handlePaymentRequired demoClientExternals (Some (demoAllowlist [''0xPAYEE''])) 150
       ?rq bareClient
     = (Inr \<lparr> rs_id = rq_id ?rq, rs_payment = Some ?payload \<rparr>,
        bareClient\<lparr>ctrace := ctrace bareClient @ [GuardrailsEnforce (1 / 1000) ''0xPAYEE'']
                      @ [WalletCreateAccount, SignPayment ''0xACCOUNT'']\<rparr>)"
    by blast
  have notlisted: "payTo (rq_params ?rq) \<notin> set [''0xOTHER'']" using to by simp
  from no_ledger_lookup_without_audit_storage
         [OF none wf, of demoClientExternals "Some (demoAllowlist [''0xOTHER''])" 150]
       price usd cap[of "[''0xOTHER'']"] wl[of "[''0xOTHER'']"] notlisted
  have refused: "handlePaymentRequired demoClientExternals (Some (demoAllowlist [''0xOTHER''])) 150
       ?rq bareClient
     = (Inl (PaymentError WHITELIST_VIOLATION
               (''Payment recipient '' @ payTo (rq_params ?rq) @ '' is not whitelisted'')
               (WhitelistDetails (payTo (rq_params ?rq)) [''0xOTHER''])),
        bareClient\<lparr>ctrace := ctrace bareClient @
                      [GuardrailsEnforce (1 / 1000) (payTo (rq_params ?rq))]\<rparr>)"
    by blast
  from none wf price usd acc to signed refused show ?thesis
    by (simp add: rid bareClient_def)
qed


section \<open>Claims about the handler registry\<close>

lemma tools_pushHandler:
  "tools (pushHandler sh h) = (if type h = Tool then tools sh @ [h] else tools sh)"
  by (cases "type h") (simp_all add: pushHandler_def)

lemma tools_foldl_pushHandler:
  "tools (foldl pushHandler sh hs) = tools sh @ filter (\<lambda>h. type h = Tool) hs"
  by (induction hs arbitrary: sh) (simp_all add: tools_pushHandler)

lemma tools_foldl_classes:
  "tools (foldl (\<lambda>sh cls. foldl pushHandler sh (extractHandlersFromInstance cls)) sh classes)
     = tools sh @ filter (\<lambda>h. type h = Tool) (concat (map extractHandlersFromInstance classes))"
  by (induction classes arbitrary: sh) (simp_all add: tools_foldl_pushHandler)

lemma extractHandlersFromInstance_mem:
  "m \<in> set cls \<Longrightarrow> h \<in> set (extractHandler m) \<Longrightarrow> h \<in> set (extractHandlersFromInstance cls)"
  by (induction cls) auto

text \<open>
  C9, as stated, fails: a tool decorated with \<open>payment.amount = 0\<close> is in the session's
  tool list, with its payment options, and nothing fails.
\<close>

theorem zero_amount_is_registered_counterexample:
  "map name (tools (createSessionHandlers [demoClass 0])) = [''add-numbers''] \<and>
   map paymentOptions (tools (createSessionHandlers [demoClass 0]))
     = [Some \<lparr> amount = 0, po_description = None \<rparr>]"
  by (simp add: createSessionHandlers_def demoClass_def MCPTool_def extractHandler_def
                pushHandler_def)

text \<open>
  C9, amended. Registration does not look at the amount: for every method decorated with
  \<open>MCPTool\<close> whose payment options have an amount less than or equal to 0, the
  descriptor is added to the session's tool list with its payment options unchanged, and
  registration raises no error.
\<close>

theorem nonpositive_amount_is_registered:
  assumes cls: "cls \<in> set handlerClasses"
      and dec: "fst (MCPTool t ctorName m registry) \<in> set cls"
      and nm: "methodName m \<noteq> ''constructor''"
      and fn: "isFunction m"
      and pay: "to_payment t = Some po"
      and amt: "amount po \<le> 0"
  shows "\<lparr> name = to_name t, handler = body m, type = Tool, paymentOptions = Some po \<rparr>
           \<in> set (tools (createSessionHandlers handlerClasses))"
proof -
  let ?h = "\<lparr> name = to_name t, handler = body m, type = Tool, paymentOptions = Some po \<rparr>"
  have "?h \<in> set (extractHandler (fst (MCPTool t ctorName m registry)))"
    using nm fn pay by (simp add: MCPTool_def extractHandler_def)
  with dec have "?h \<in> set (extractHandlersFromInstance cls)"
    by (rule extractHandlersFromInstance_mem)
  with cls have "?h \<in> set (concat (map extractHandlersFromInstance handlerClasses))"
    by auto
  then show ?thesis
    by (simp add: createSessionHandlers_def tools_foldl_classes)
qed

theorem nonpositive_amount_is_registered_witness:
  "demoClass (- 1) \<in> set [demoClass (- 1)] \<and>
   fst (MCPTool \<lparr> to_name = ''add-numbers'',
                  to_payment = Some \<lparr> amount = - 1, po_description = None \<rparr> \<rparr>
          ''Calculator''
          \<lparr> methodName = ''add'', isFunction = True, body = addNumbers,
            toolOptions = None, promptOptions = None, resourceOptions = None \<rparr>
          Map.empty) \<in> set (demoClass (- 1)) \<and>
   (- 1 :: rat) \<le> 0 \<and>
   \<lparr> name = ''add-numbers'', handler = addNumbers, type = Tool,
     paymentOptions = Some \<lparr> amount = - 1, po_description = None \<rparr> \<rparr>
     \<in> set (tools (createSessionHandlers [demoClass (- 1)]))"
proof -
  let ?t = "\<lparr> to_name = ''add-numbers'',
              to_payment = Some \<lparr> amount = - 1, po_description = None \<rparr> \<rparr>"
  let ?m = "\<lparr> methodName = ''add'', isFunction = True, body = addNumbers,
            toolOptions = None, promptOptions = None, resourceOptions = None \<rparr>"
  have cls: "demoClass (- 1) \<in> set [demoClass (- 1)]" by simp
  have dec: "fst (MCPTool ?t ''Calculator'' ?m Map.empty) \<in> set (demoClass (- 1))"
    by (simp add: demoClass_def)
  have nm: "methodName ?m \<noteq> ''constructor''" by simp
  have fn: "isFunction ?m" by simp
  have pay: "to_payment ?t = Some \<lparr> amount = - 1, po_description = None \<rparr>" by simp
  have amt: "amount \<lparr> amount = - 1, po_description = None \<rparr> \<le> 0" by simp
  from nonpositive_amount_is_registered [OF cls dec nm fn pay amt] cls dec
  show ?thesis by simp
qed


end
